theory Spec2Isabelle
  imports Main "HOL-Library.AList" "HOL-Library.Sublist" "HOL-Library.Char_ord"
    "HOL-Library.List_Lexorder"
begin

section \<open>The shared key-value store and the state of a server instance\<close>

text \<open>
  All server modules open the same Deno KV store. A key is an array of strings; a value
  is one of the object shapes the modules write. An entry may carry the instant at which
  it expires (\<^verbatim>\<open>expireIn\<close>); the store drops an expired entry on its own, some time
  after that instant, which is not an action of any handler below.

  \<^verbatim>\<open>Date.now()\<close> is the field \<open>now\<close> of the state: a handler is modelled as running at
  one instant and without interleaving with other handlers; time passes between handlers.
  The n-th call of \<^verbatim>\<open>ulid()\<close> returns \<open>ulid_gen n\<close>; a UUID is modelled by the number
  of the \<^verbatim>\<open>crypto.randomUUID()\<close> call that produced it. KV operations are modelled as
  succeeding (the \<^verbatim>\<open>catch\<close> blocks for KV failures are not modelled).
\<close>

type_synonym kv_key = "string list"

record ControllerRecord =
  cr_id :: string
  cr_timestamp :: int
  cr_instanceId :: "string option"
  cr_metadata :: "string option"

record ChangeNotification =
  cn_controllerId :: "string option"
  cn_timestamp :: int
  cn_notificationId :: nat

record LockRecord =
  lk_userId :: string
  lk_timestamp :: int

record ClientRecord =
  cl_instanceId :: string
  cl_lastSeen :: int
  cl_connectionTimestamp :: int
  cl_reconnectionCount :: nat
  cl_lastReconnectTime :: "int option"
  cl_isController :: bool

record ControllerDirRecord =
  cd_instanceId :: string
  cd_lastSeen :: int
  cd_connectionTimestamp :: int
  cd_reconnectionCount :: nat

text \<open>An entry of the \<^verbatim>\<open>client-list\<close> frame built by \<^verbatim>\<open>getConnectedClients\<close>.\<close>

record client_info =
  ci_id :: string
  ci_connected :: bool
  ci_lastSeen :: int
  ci_connectionTimestamp :: int
  ci_reconnectionCount :: nat
  ci_lastReconnectTime :: "int option"
  ci_isInGracePeriod :: bool
  ci_hasWebsocket :: bool
  ci_webRTCConnected :: bool

text \<open>The \<^verbatim>\<open>client\<close> object of a \<^verbatim>\<open>client-connected\<close> notification.\<close>

record client_summary =
  cs_id :: string
  cs_connected :: bool
  cs_lastSeen :: int
  cs_connectionTimestamp :: int
  cs_reconnectionCount :: nat
  cs_isReconnect :: bool

datatype signal_kind = Offer | Answer | IceCandidate

datatype client_event = EvClient client_summary | EvClientId string

text \<open>The JSON frames the server sends on a socket or stores in a message queue.\<close>

datatype frame =
    ActiveControllerFrame "string option" "int option"
  | ClientListFrame "client_info list"
  | SignalFrame signal_kind string string
  | ClientEventFrame string client_event

datatype kv_value =
    VController ControllerRecord
  | VNotification ChangeNotification
  | VLock LockRecord
  | VClient ClientRecord
  | VControllerDir ControllerDirRecord
  | VMessage frame

datatype ready_state = CONNECTING | OPEN | CLOSING | CLOSED

record socket =
  readyState :: ready_state
  sent :: "frame list"
  closedWith :: "(nat \<times> string) option"

datatype callback = ProcessMessages string nat | DelayedCleanup nat

datatype timer = Interval int callback | Timeout int callback

record state =
  kv :: "(kv_key \<times> kv_value \<times> int option) list"
  now :: int
  randomUUID :: nat
  ulid_gen :: "nat \<Rightarrow> string"
  ulid_calls :: nat
  instanceId :: string
  sockets :: "(nat \<times> socket) list"
  activeConnections :: "(string \<times> nat) list"
  pollingIntervals :: "(string \<times> nat) list"
  activeControllers :: "string list"
  activeWebRTCConnections :: "(string \<times> string list) list"
  timers :: "(nat \<times> timer) list"
  nextTimer :: nat

definition kv_get :: "kv_key \<Rightarrow> state \<Rightarrow> kv_value option" where
  "kv_get k st = map_option fst (map_of (kv st) k)"

definition kv_set :: "kv_key \<Rightarrow> kv_value \<Rightarrow> int option \<Rightarrow> state \<Rightarrow> state" where
  "kv_set k v expireIn st =
     st\<lparr>kv := AList.update k (v, map_option (\<lambda>d. now st + d) expireIn) (kv st)\<rparr>"

definition kv_delete :: "kv_key \<Rightarrow> state \<Rightarrow> state" where
  "kv_delete k st = st\<lparr>kv := AList.delete k (kv st)\<rparr>"

text \<open>
  \<^verbatim>\<open>kv.list({prefix})\<close> yields the entries whose key extends the prefix by at least one
  part, in the order of the keys: part by part, each part by its bytes.
\<close>

definition kv_list :: "kv_key \<Rightarrow> state \<Rightarrow> (kv_key \<times> kv_value) list" where
  "kv_list pre st =
     sort_key fst
       (map (\<lambda>(k, e). (k, fst e)) (filter (\<lambda>(k, e). strict_prefix pre k) (kv st)))"

text \<open>JavaScript's \<^verbatim>\<open>a || b\<close> on numbers: \<open>0\<close> is falsy.\<close>

definition js_or :: "int \<Rightarrow> int \<Rightarrow> int" where
  "js_or a b = (if a = 0 then b else a)"

text \<open>
  Field reads on a stored value. A field that the value does not have reads as
  \<^verbatim>\<open>undefined\<close>, which the callers replace by \<open>0\<close> or \<^verbatim>\<open>null\<close> with \<^verbatim>\<open>||\<close>.
\<close>

fun field_lastSeen :: "kv_value \<Rightarrow> int" where
  "field_lastSeen (VClient r) = cl_lastSeen r"
| "field_lastSeen (VControllerDir d) = cd_lastSeen d"
| "field_lastSeen _ = 0"

fun field_connectionTimestamp :: "kv_value \<Rightarrow> int" where
  "field_connectionTimestamp (VClient r) = cl_connectionTimestamp r"
| "field_connectionTimestamp (VControllerDir d) = cd_connectionTimestamp d"
| "field_connectionTimestamp _ = 0"

fun field_reconnectionCount :: "kv_value \<Rightarrow> nat" where
  "field_reconnectionCount (VClient r) = cl_reconnectionCount r"
| "field_reconnectionCount (VControllerDir d) = cd_reconnectionCount d"
| "field_reconnectionCount _ = 0"

fun field_lastReconnectTime :: "kv_value \<Rightarrow> int option" where
  "field_lastReconnectTime (VClient r) = cl_lastReconnectTime r"
| "field_lastReconnectTime _ = None"

text \<open>\<^verbatim>\<open>x || null\<close> on a number that may be \<^verbatim>\<open>null\<close> or \<^verbatim>\<open>undefined\<close>.\<close>

definition js_or_null :: "int option \<Rightarrow> int option" where
  "js_or_null x = (case x of Some t \<Rightarrow> (if t = 0 then None else Some t) | None \<Rightarrow> None)"

section \<open>controller/manager.ts\<close>

definition ACTIVE_CONTROLLER_KEY :: kv_key where
  "ACTIVE_CONTROLLER_KEY = [''webrtc'', ''controller'', ''active'']"

definition CONTROLLER_NOTIFICATION_KEY :: kv_key where
  "CONTROLLER_NOTIFICATION_KEY = [''webrtc'', ''controller'', ''notification'']"

definition HEARTBEAT_TIMEOUT_MS :: int where
  "HEARTBEAT_TIMEOUT_MS = 30000"

definition createControllerChangeNotification :: "string option \<Rightarrow> state \<Rightarrow> state" where
  "createControllerChangeNotification controllerId st =
     (kv_set CONTROLLER_NOTIFICATION_KEY
        (VNotification \<lparr>cn_controllerId = controllerId, cn_timestamp = now st,
                         cn_notificationId = randomUUID st\<rparr>) None st)
     \<lparr>randomUUID := Suc (randomUUID st)\<rparr>"

text \<open>
  \<^verbatim>\<open>getActiveController\<close> and \<^verbatim>\<open>clearActiveController\<close> call each other. The first
  argument bounds the number of nested calls; \<open>None\<close> means that the call has not returned
  within that bound. Only ControllerRecords are written under the key; any other content
  is read as no record.
\<close>

fun getActiveController :: "nat \<Rightarrow> state \<Rightarrow> (ControllerRecord option \<times> state) option"
and clearActiveController :: "nat \<Rightarrow> string \<Rightarrow> state \<Rightarrow> (bool \<times> state) option" where
  "getActiveController 0 st = None"
| "getActiveController (Suc n) st =
     (case kv_get ACTIVE_CONTROLLER_KEY st of
        Some (VController r) \<Rightarrow>
          if now st - cr_timestamp r > HEARTBEAT_TIMEOUT_MS
          then (case clearActiveController n (cr_id r) st of
                  None \<Rightarrow> None
                | Some (cleared, st') \<Rightarrow> Some (None, st'))
          else Some (Some r, st)
      | _ \<Rightarrow> Some (None, st))"
| "clearActiveController 0 controllerId st = None"
| "clearActiveController (Suc n) controllerId st =
     (case getActiveController n st of
        None \<Rightarrow> None
      | Some (None, st1) \<Rightarrow> Some (False, st1)
      | Some (Some current, st1) \<Rightarrow>
          if cr_id current \<noteq> controllerId then Some (False, st1)
          else Some (True, createControllerChangeNotification None
                             (kv_delete ACTIVE_CONTROLLER_KEY st1)))"

definition setActiveController :: "nat \<Rightarrow> string \<Rightarrow> bool \<Rightarrow> state \<Rightarrow> (bool \<times> state) option" where
  "setActiveController fuel controllerId isHeartbeat st =
     (case getActiveController fuel st of
        None \<Rightarrow> None
      | Some (current, st1) \<Rightarrow>
          if (case current of Some c \<Rightarrow> cr_id c = controllerId | None \<Rightarrow> False)
          then Some (False,
                 kv_set ACTIVE_CONTROLLER_KEY
                   (VController ((the current)\<lparr>cr_timestamp := now st1\<rparr>)) None st1)
          else if isHeartbeat \<and> (case current of Some c \<Rightarrow> cr_id c \<noteq> controllerId | None \<Rightarrow> False)
          then Some (False, st1)
          else Some (True,
                 createControllerChangeNotification (Some controllerId)
                   (kv_set ACTIVE_CONTROLLER_KEY
                      (VController \<lparr>cr_id = controllerId, cr_timestamp = now st1,
                                     cr_instanceId = Some (instanceId st1),
                                     cr_metadata = Some ''controller''\<rparr>) None st1)))"

definition forceResetControllerState :: "nat \<Rightarrow> state \<Rightarrow> (bool \<times> state) option" where
  "forceResetControllerState fuel st =
     (case getActiveController fuel st of
        None \<Rightarrow> None
      | Some (current, st1) \<Rightarrow>
          Some (True, createControllerChangeNotification None
                        (kv_delete ACTIVE_CONTROLLER_KEY st1)))"

definition sendControllerHeartbeat :: "nat \<Rightarrow> string \<Rightarrow> state \<Rightarrow> (bool \<times> state) option" where
  "sendControllerHeartbeat fuel controllerId st = setActiveController fuel controllerId True st"

section \<open>controller/status.ts\<close>

definition status_ACTIVE_CONTROLLER_KEY :: kv_key where
  "status_ACTIVE_CONTROLLER_KEY = [''webrtc'', ''active_controller'']"

definition status_CONTROLLER_CHANGE_NOTIFICATION_KEY :: kv_key where
  "status_CONTROLLER_CHANGE_NOTIFICATION_KEY = [''webrtc'', ''controller_change_notification'']"

definition status_HEARTBEAT_TIMEOUT_MS :: int where
  "status_HEARTBEAT_TIMEOUT_MS = 30000"

definition status_createControllerChangeNotification :: "string option \<Rightarrow> state \<Rightarrow> state" where
  "status_createControllerChangeNotification controllerId st =
     (kv_set status_CONTROLLER_CHANGE_NOTIFICATION_KEY
        (VNotification \<lparr>cn_controllerId = controllerId, cn_timestamp = now st,
                         cn_notificationId = randomUUID st\<rparr>) None st)
     \<lparr>randomUUID := Suc (randomUUID st)\<rparr>"

definition status_getActiveController :: "state \<Rightarrow> ControllerRecord option \<times> state" where
  "status_getActiveController st =
     (case kv_get status_ACTIVE_CONTROLLER_KEY st of
        Some (VController r) \<Rightarrow>
          if now st - cr_timestamp r > status_HEARTBEAT_TIMEOUT_MS
          then (None, status_createControllerChangeNotification None
                        (kv_delete status_ACTIVE_CONTROLLER_KEY st))
          else (Some r, st)
      | _ \<Rightarrow> (None, st))"

definition status_setActiveController :: "string \<Rightarrow> bool \<Rightarrow> state \<Rightarrow> bool \<times> state" where
  "status_setActiveController controllerId isHeartbeat st =
     (case status_getActiveController st of (current, st1) \<Rightarrow>
        if (case current of Some c \<Rightarrow> cr_id c = controllerId | None \<Rightarrow> False)
        then (False,
              kv_set status_ACTIVE_CONTROLLER_KEY
                (VController \<lparr>cr_id = controllerId, cr_timestamp = now st1,
                               cr_instanceId = None, cr_metadata = None\<rparr>) None st1)
        else if isHeartbeat \<and> (case current of Some c \<Rightarrow> cr_id c \<noteq> controllerId | None \<Rightarrow> False)
        then (False, st1)
        else (True,
              status_createControllerChangeNotification (Some controllerId)
                (kv_set status_ACTIVE_CONTROLLER_KEY
                   (VController \<lparr>cr_id = controllerId, cr_timestamp = now st1,
                                  cr_instanceId = None, cr_metadata = None\<rparr>) None st1)))"

definition status_clearActiveController :: "string \<Rightarrow> state \<Rightarrow> bool \<times> state" where
  "status_clearActiveController controllerId st =
     (case status_getActiveController st of (current, st1) \<Rightarrow>
        (case current of
           None \<Rightarrow> (False, st1)
         | Some c \<Rightarrow>
             if cr_id c \<noteq> controllerId then (False, st1)
             else (True, kv_delete status_ACTIVE_CONTROLLER_KEY st1)))"

text \<open>
  The JSON body of the answer of a POST to \<^verbatim>\<open>/controller/status\<close> and to
  \<^verbatim>\<open>/controller/lock\<close>. The handlers take the result of \<^verbatim>\<open>checkAuth\<close> (the session
  id, or \<^verbatim>\<open>null\<close>) and what reading the body gives: \<open>Some b\<close> when \<^verbatim>\<open>req.json()\<close>
  returns an object and \<open>b\<close> is \<^verbatim>\<open>!!body.heartbeat\<close>, \<open>None\<close> when \<^verbatim>\<open>req.json()\<close>
  or the read of \<^verbatim>\<open>heartbeat\<close> throws (a body that is not JSON, or the JSON \<^verbatim>\<open>null\<close>).
  The handlers catch that exception and answer 500.
\<close>

record post_response =
  pr_success :: bool
  pr_isActive :: bool
  pr_activeController :: "string option"
  pr_changed :: bool
  pr_timestamp :: int
  pr_timeoutMs :: int

datatype http_response = Unauthorized401 | ServerError500 | Ok200 post_response

definition id_or_null :: "ControllerRecord option \<Rightarrow> string option" where
  "id_or_null c = (case c of Some r \<Rightarrow> (if cr_id r = [] then None else Some (cr_id r)) | None \<Rightarrow> None)"

definition status_POST :: "string option \<Rightarrow> bool option \<Rightarrow> state \<Rightarrow> http_response \<times> state" where
  "status_POST auth body st =
     (case auth of
        None \<Rightarrow> (Unauthorized401, st)
      | Some controllerId \<Rightarrow>
          if controllerId = [] then (Unauthorized401, st)
          else (case body of
                  None \<Rightarrow> (ServerError500, st)
                | Some isHeartbeat \<Rightarrow>
                    (case status_setActiveController controllerId isHeartbeat st of (changed, st1) \<Rightarrow>
                       (case status_getActiveController st1 of (activeController, st2) \<Rightarrow>
                          (Ok200 \<lparr>pr_success = True,
                                  pr_isActive = (map_option cr_id activeController = Some controllerId),
                                  pr_activeController = id_or_null activeController,
                                  pr_changed = changed,
                                  pr_timestamp = now st2,
                                  pr_timeoutMs = status_HEARTBEAT_TIMEOUT_MS\<rparr>, st2)))))"

section \<open>controller/lock.ts\<close>

definition CONTROLLER_LOCK_KEY :: kv_key where
  "CONTROLLER_LOCK_KEY = [''webrtc:controller:lock'']"

definition lock_POST ::
  "nat \<Rightarrow> string option \<Rightarrow> bool option \<Rightarrow> state \<Rightarrow> (http_response \<times> state) option" where
  "lock_POST fuel auth body st =
     (case auth of
        None \<Rightarrow> Some (Unauthorized401, st)
      | Some controllerId \<Rightarrow>
          if controllerId = [] then Some (Unauthorized401, st)
          else (case body of
                  None \<Rightarrow> Some (ServerError500, st)
                | Some isHeartbeat \<Rightarrow>
                    (case setActiveController fuel controllerId isHeartbeat st of
                       None \<Rightarrow> None
                     | Some (changed, st1) \<Rightarrow>
                         (case getActiveController fuel
                                 (kv_set CONTROLLER_LOCK_KEY
                                    (VLock \<lparr>lk_userId = controllerId, lk_timestamp = now st1\<rparr>)
                                    None st1) of
                            None \<Rightarrow> None
                          | Some (activeController, st3) \<Rightarrow>
                              Some (Ok200 \<lparr>pr_success = True,
                                           pr_isActive =
                                             (map_option cr_id activeController = Some controllerId),
                                           pr_activeController = id_or_null activeController,
                                           pr_changed = changed,
                                           pr_timestamp = now st3,
                                           pr_timeoutMs = HEARTBEAT_TIMEOUT_MS\<rparr>, st3)))))"

section \<open>signal.ts\<close>

definition QUEUE_TTL_MS :: int where
  "QUEUE_TTL_MS = 1000 * 60 * 5"

definition CLIENT_TTL_MS :: int where
  "CLIENT_TTL_MS = 1000 * 60 * 10"

definition CLIENT_GRACE_PERIOD_MS :: int where
  "CLIENT_GRACE_PERIOD_MS = 15000"

definition CONNECTION_KEY_PREFIX :: kv_key where
  "CONNECTION_KEY_PREFIX = [''webrtc'', ''connections'']"

definition MESSAGE_KEY_PREFIX :: kv_key where
  "MESSAGE_KEY_PREFIX = [''webrtc'', ''messages'']"

definition CONTROLLER_PREFIX :: string where
  "CONTROLLER_PREFIX = ''controller-''"

definition getConnectionKey :: "string \<Rightarrow> kv_key" where
  "getConnectionKey ident = CONNECTION_KEY_PREFIX @ [ident]"

definition getMessagesKey :: "string \<Rightarrow> kv_key" where
  "getMessagesKey ident = MESSAGE_KEY_PREFIX @ [ident]"

definition queueMessage :: "string \<Rightarrow> frame \<Rightarrow> state \<Rightarrow> state" where
  "queueMessage targetId message st =
     (kv_set (getMessagesKey targetId @ [ulid_gen st (ulid_calls st)]) (VMessage message)
        (Some QUEUE_TTL_MS) st)
     \<lparr>ulid_calls := Suc (ulid_calls st)\<rparr>"

definition isController :: "string \<Rightarrow> bool" where
  "isController ident = prefix CONTROLLER_PREFIX ident"

subsection \<open>Sockets and timers\<close>

text \<open>
  A socket is named by a handle. \<^verbatim>\<open>send\<close> on an open socket adds the frame to what
  the socket has been sent; on any other socket it throws (\<open>None\<close>). The code checks
  that a socket is open before it sends, except for the client list of
  \<^verbatim>\<open>controller-activate\<close>, which goes to the socket the verb arrived on.
  \<^verbatim>\<open>close\<close> starts the closing handshake of a socket that is not yet closing.
\<close>

definition socket_readyState :: "nat \<Rightarrow> state \<Rightarrow> ready_state" where
  "socket_readyState s st = (case map_of (sockets st) s of Some k \<Rightarrow> readyState k | None \<Rightarrow> CLOSED)"

definition socket_send :: "nat \<Rightarrow> frame \<Rightarrow> state \<Rightarrow> state option" where
  "socket_send s f st =
     (case map_of (sockets st) s of
        Some k \<Rightarrow>
          if readyState k = OPEN
          then Some (st\<lparr>sockets := AList.update s (k\<lparr>sent := sent k @ [f]\<rparr>) (sockets st)\<rparr>)
          else None
      | None \<Rightarrow> None)"

definition socket_close :: "nat \<Rightarrow> nat \<Rightarrow> string \<Rightarrow> state \<Rightarrow> state" where
  "socket_close s code reason st =
     (case map_of (sockets st) s of
        Some k \<Rightarrow>
          if readyState k = CONNECTING \<or> readyState k = OPEN
          then st\<lparr>sockets := AList.update s
                     (k\<lparr>readyState := CLOSING, closedWith := Some (code, reason)\<rparr>) (sockets st)\<rparr>
          else st
      | None \<Rightarrow> st)"

definition set_timer :: "timer \<Rightarrow> state \<Rightarrow> nat \<times> state" where
  "set_timer t st = (nextTimer st, st\<lparr>timers := timers st @ [(nextTimer st, t)],
                                        nextTimer := Suc (nextTimer st)\<rparr>)"

definition clear_timer :: "nat \<Rightarrow> state \<Rightarrow> state" where
  "clear_timer i st = st\<lparr>timers := AList.delete i (timers st)\<rparr>"

subsection \<open>Broadcasts and notifications\<close>

fun broadcast_loop :: "(string \<times> nat) list \<Rightarrow> string option \<Rightarrow> nat \<Rightarrow> state \<Rightarrow> nat \<times> state" where
  "broadcast_loop [] controllerId notifiedCount st = (notifiedCount, st)"
| "broadcast_loop ((clientId, s) # rest) controllerId notifiedCount st =
     (if \<not> isController clientId \<and> socket_readyState s st = OPEN
      then (case socket_send s (ActiveControllerFrame controllerId (Some (now st))) st of
              Some st' \<Rightarrow> broadcast_loop rest controllerId (Suc notifiedCount) st'
            | None \<Rightarrow>
                broadcast_loop rest controllerId notifiedCount
                  (queueMessage clientId (ActiveControllerFrame controllerId (Some (now st))) st))
      else broadcast_loop rest controllerId notifiedCount st)"

definition broadcastControllerChange :: "string option \<Rightarrow> state \<Rightarrow> nat \<times> state" where
  "broadcastControllerChange controllerId st =
     broadcast_loop (activeConnections st) controllerId 0 st"

text \<open>
  \<^verbatim>\<open>notifyControllers\<close>: first the controllers of this instance, by socket when it is open
  and by queue otherwise; then the controllers of the KV directory that were not notified
  yet, by queue. An exception of \<^verbatim>\<open>send\<close> ends the function (\<open>Inl\<close>).
\<close>

fun notify_local :: "string list \<Rightarrow> frame \<Rightarrow> state \<Rightarrow> state + state" where
  "notify_local [] message st = Inr st"
| "notify_local (controllerId # rest) message st =
     (case map_of (activeConnections st) controllerId of
        Some s \<Rightarrow>
          if socket_readyState s st = OPEN
          then (case socket_send s message st of
                  Some st' \<Rightarrow> notify_local rest message st'
                | None \<Rightarrow> Inl st)
          else notify_local rest message (queueMessage controllerId message st)
      | None \<Rightarrow> notify_local rest message (queueMessage controllerId message st))"

fun notify_directory :: "(kv_key \<times> kv_value) list \<Rightarrow> string list \<Rightarrow> frame \<Rightarrow> state \<Rightarrow> state" where
  "notify_directory [] notifiedControllers message st = st"
| "notify_directory ((k, v) # rest) notifiedControllers message st =
     (if last k \<in> set notifiedControllers
      then notify_directory rest notifiedControllers message st
      else notify_directory rest notifiedControllers message (queueMessage (last k) message st))"

definition notifyControllers :: "frame \<Rightarrow> state \<Rightarrow> state" where
  "notifyControllers message st =
     (case notify_local (activeControllers st) message st of
        Inl st' \<Rightarrow> st'
      | Inr st1 \<Rightarrow>
          notify_directory (kv_list [''webrtc'', ''controllers''] st1) (activeControllers st)
            message st1)"

definition signal_getActiveController :: "nat \<Rightarrow> state \<Rightarrow> (string option \<times> state) option" where
  "signal_getActiveController fuel st =
     (case getActiveController fuel st of
        None \<Rightarrow> None
      | Some (controller, st') \<Rightarrow> Some (map_option cr_id controller, st'))"

definition hasActiveWebRTCConnection :: "string \<Rightarrow> state \<Rightarrow> bool" where
  "hasActiveWebRTCConnection clientId st =
     list_ex (\<lambda>(c, connectedClients). clientId \<in> set connectedClients) (activeWebRTCConnections st)"

subsection \<open>The reaper\<close>

definition isInGracePeriod :: "int \<Rightarrow> int \<Rightarrow> bool" where
  "isInGracePeriod now_ms connectionTimestamp \<longleftrightarrow> now_ms - connectionTimestamp < CLIENT_GRACE_PERIOD_MS"

definition clientsToRemove :: "state \<Rightarrow> (kv_key \<times> string) list" where
  "clientsToRemove st =
     map (\<lambda>(k, v). (k, last k))
       (filter (\<lambda>(k, v).
            \<not> isController (last k) \<and>
            \<not> isInGracePeriod (now st) (js_or (field_connectionTimestamp v) 0) \<and>
            last k \<notin> set (concat (map snd (activeWebRTCConnections st))))
          (kv_list CONNECTION_KEY_PREFIX st))"

fun remove_clients :: "(kv_key \<times> string) list \<Rightarrow> state \<Rightarrow> state" where
  "remove_clients [] st = st"
| "remove_clients ((k, clientId) # rest) st =
     remove_clients rest
       (notifyControllers (ClientEventFrame ''client-disconnected'' (EvClientId clientId))
          (kv_delete k st))"

definition cleanupBasedOnWebRTCConnections :: "state \<Rightarrow> nat \<times> state" where
  "cleanupBasedOnWebRTCConnections st =
     (length (clientsToRemove st), remove_clients (clientsToRemove st) st)"

definition cleanupInactiveClients :: "state \<Rightarrow> nat \<times> state" where
  "cleanupInactiveClients st = cleanupBasedOnWebRTCConnections st"

definition getConnectedClients :: "state \<Rightarrow> client_info list" where
  "getConnectedClients st =
     map (\<lambda>(k, v).
            \<lparr>ci_id = last k,
             ci_connected = False,
             ci_lastSeen = js_or (field_lastSeen v) 0,
             ci_connectionTimestamp =
               js_or (field_connectionTimestamp v) (js_or (field_lastSeen v) 0),
             ci_reconnectionCount = field_reconnectionCount v,
             ci_lastReconnectTime = js_or_null (field_lastReconnectTime v),
             ci_isInGracePeriod =
               isInGracePeriod (now st)
                 (js_or (field_connectionTimestamp v) (js_or (field_lastSeen v) 0)),
             ci_hasWebsocket = (map_of (activeConnections st) (last k) \<noteq> None),
             ci_webRTCConnected = hasActiveWebRTCConnection (last k) st\<rparr>)
       (filter (\<lambda>(k, v). \<not> isController (last k)) (kv_list CONNECTION_KEY_PREFIX st))"

text \<open>The callback that \<^verbatim>\<open>controller-activate\<close> schedules with \<^verbatim>\<open>setTimeout\<close>.\<close>

definition delayedCleanup :: "nat \<Rightarrow> state \<Rightarrow> state" where
  "delayedCleanup s st =
     (case cleanupInactiveClients st of (removedCount, st1) \<Rightarrow>
        if socket_readyState s st1 = OPEN
        then (case socket_send s (ClientListFrame (getConnectedClients st1)) st1 of
                Some st2 \<Rightarrow> st2
              | None \<Rightarrow> st1)
        else st1)"


subsection \<open>The client registry\<close>

text \<open>
  \<^verbatim>\<open>registerConnection\<close> in three parts: the block that closes a socket already
  registered under the id, the body, and the block that restarts the polling timer.
  After it has written the ClientRecord, the function logs the connection timestamp with
  \<^verbatim>\<open>new Date(connectionTimestamp).toISOString()\<close>, which throws a RangeError for a
  time value outside the range of \<^verbatim>\<open>Date\<close>; nothing in the function catches it, so
  the function ends there (\<open>Inl\<close>, with the state reached). \<open>final_state\<close> is the
  state in which a call ends, either way.
\<close>

definition MAX_TIME_VALUE :: int where
  "MAX_TIME_VALUE = 8640000000000000"

definition valid_time_value :: "int \<Rightarrow> bool" where
  "valid_time_value t \<longleftrightarrow> - MAX_TIME_VALUE \<le> t \<and> t \<le> MAX_TIME_VALUE"

definition final_state :: "state + state \<Rightarrow> state" where
  "final_state r = (case r of Inl st \<Rightarrow> st | Inr st \<Rightarrow> st)"

definition closeExistingConnection :: "string \<Rightarrow> nat \<Rightarrow> state \<Rightarrow> state" where
  "closeExistingConnection ident s st =
     (case map_of (activeConnections st) ident of
        Some existingConnection \<Rightarrow>
          if existingConnection \<noteq> s
          then socket_close existingConnection 1000 ''Replaced by new connection'' st
          else st
      | None \<Rightarrow> st)"

definition restartPolling :: "string \<Rightarrow> nat \<Rightarrow> state \<Rightarrow> state" where
  "restartPolling ident s st =
     (let st1 = (case map_of (pollingIntervals st) ident of
                   Some i \<Rightarrow>
                     (clear_timer i st)\<lparr>pollingIntervals := AList.delete ident (pollingIntervals st)\<rparr>
                 | None \<Rightarrow> st);
          st2 = snd (set_timer (Interval 500 (ProcessMessages ident s)) st1)
      in st2\<lparr>pollingIntervals := AList.update ident (nextTimer st1) (pollingIntervals st2)\<rparr>)"

definition registerConnection :: "string \<Rightarrow> nat \<Rightarrow> bool \<Rightarrow> int \<Rightarrow> state \<Rightarrow> state + state" where
  "registerConnection ident s isReconnect timestamp st =
     (let connectionKey = getConnectionKey ident;
          isControllerClient = isController ident;
          existingClient = kv_get connectionKey st;
          st1 = closeExistingConnection ident s st;
          connectionTimestamp =
            (case existingClient of
               Some v \<Rightarrow>
                 if isReconnect
                 then js_or (field_connectionTimestamp v) (js_or timestamp (now st1))
                 else js_or (field_connectionTimestamp v) (now st1)
             | None \<Rightarrow> now st1);
          reconnectionCount =
            (case existingClient of Some v \<Rightarrow> field_reconnectionCount v + 1 | None \<Rightarrow> 0);
          st2 = kv_set connectionKey
                  (VClient \<lparr>cl_instanceId = instanceId st1,
                            cl_lastSeen = now st1,
                            cl_connectionTimestamp = connectionTimestamp,
                            cl_reconnectionCount = reconnectionCount,
                            cl_lastReconnectTime =
                              (if isReconnect then Some (now st1)
                               else js_or_null (case existingClient of
                                                  Some v \<Rightarrow> field_lastReconnectTime v
                                                | None \<Rightarrow> None)),
                            cl_isController = isControllerClient\<rparr>)
                  (Some CLIENT_TTL_MS) st1;
          st3 = st2\<lparr>activeConnections := AList.update ident s (activeConnections st2)\<rparr>;
          st4 = (if isControllerClient
                 then kv_set [''webrtc'', ''controllers'', ident]
                        (VControllerDir \<lparr>cd_instanceId = instanceId st1,
                                         cd_lastSeen = now st1,
                                         cd_connectionTimestamp = connectionTimestamp,
                                         cd_reconnectionCount = reconnectionCount\<rparr>)
                        (Some CLIENT_TTL_MS)
                        (st3\<lparr>activeControllers :=
                                (if ident \<in> set (activeControllers st3) then activeControllers st3
                                 else activeControllers st3 @ [ident])\<rparr>)
                 else notifyControllers
                        (ClientEventFrame
                           (if isReconnect then ''client-reconnected'' else ''client-connected'')
                           (EvClient \<lparr>cs_id = ident, cs_connected = False,
                                      cs_lastSeen = now st1,
                                      cs_connectionTimestamp = connectionTimestamp,
                                      cs_reconnectionCount = reconnectionCount,
                                      cs_isReconnect = isReconnect\<rparr>))
                        st3)
      in if \<not> valid_time_value connectionTimestamp then Inl st2
         else Inr (restartPolling ident s st4))"

subsection \<open>The WebSocket message handler\<close>

text \<open>
  The verbs modelled are \<^verbatim>\<open>controller-activate\<close>, \<^verbatim>\<open>controller-deactivate\<close>, the three
  signaling verbs, and a type that no \<^verbatim>\<open>case\<close> handles. The handler runs on the socket
  \<open>s\<close> whose session is bound to \<open>clientId\<close> (\<^verbatim>\<open>null\<close> before \<^verbatim>\<open>register\<close>).
\<close>

datatype ws_message =
    ControllerActivate
  | ControllerDeactivate
  | SignalMsg signal_kind string string
  | OtherType string

text \<open>
  \<^verbatim>\<open>{...value, lastSeen, connectionTimestamp}\<close>. Only client records are stored under a
  connection key; a value of another shape is left as it is.
\<close>

fun with_lastSeen :: "int \<Rightarrow> int \<Rightarrow> kv_value \<Rightarrow> kv_value" where
  "with_lastSeen ls ct (VClient r) = VClient (r\<lparr>cl_lastSeen := ls, cl_connectionTimestamp := ct\<rparr>)"
| "with_lastSeen ls ct (VControllerDir d) =
     VControllerDir (d\<lparr>cd_lastSeen := ls, cd_connectionTimestamp := ct\<rparr>)"
| "with_lastSeen ls ct v = v"

definition bound :: "string option \<Rightarrow> bool" where
  "bound clientId \<longleftrightarrow> (case clientId of Some c \<Rightarrow> c \<noteq> [] | None \<Rightarrow> False)"

definition refresh_lastSeen :: "string option \<Rightarrow> state \<Rightarrow> state" where
  "refresh_lastSeen clientId st =
     (if bound clientId
      then (case kv_get (getConnectionKey (the clientId)) st of
              Some v \<Rightarrow>
                kv_set (getConnectionKey (the clientId))
                  (with_lastSeen (now st) (js_or (field_connectionTimestamp v) (now st)) v)
                  (Some CLIENT_TTL_MS) st
            | None \<Rightarrow> st)
      else st)"

definition onmessage :: "nat \<Rightarrow> nat \<Rightarrow> string option \<Rightarrow> ws_message \<Rightarrow> state \<Rightarrow> state option" where
  "onmessage fuel s clientId message st =
     (let st1 = refresh_lastSeen clientId st in
      case message of
        ControllerActivate \<Rightarrow>
          if bound clientId \<and> isController (the clientId)
          then (case broadcastControllerChange clientId st1 of (notified, st2) \<Rightarrow>
                  (case socket_send s (ClientListFrame (getConnectedClients st2)) st2 of
                     Some st3 \<Rightarrow>
                       Some (snd (set_timer (Timeout CLIENT_GRACE_PERIOD_MS (DelayedCleanup s)) st3))
                   | None \<Rightarrow> Some st2))
          else Some st1
      | ControllerDeactivate \<Rightarrow>
          if bound clientId \<and> isController (the clientId)
          then (case signal_getActiveController fuel st1 of
                  None \<Rightarrow> None
                | Some (activeController, st2) \<Rightarrow>
                    if activeController = clientId
                    then Some (snd (broadcastControllerChange None st2))
                    else Some st2)
          else Some st1
      | SignalMsg kind targetId payload \<Rightarrow>
          if \<not> bound clientId then Some st1
          else (case map_of (activeConnections st1) targetId of
                  Some targetSocket \<Rightarrow>
                    if socket_readyState targetSocket st1 = OPEN
                    then (case socket_send targetSocket (SignalFrame kind payload (the clientId)) st1 of
                            Some st2 \<Rightarrow> Some st2
                          | None \<Rightarrow> Some st1)
                    else Some (queueMessage targetId (SignalFrame kind payload (the clientId)) st1)
                | None \<Rightarrow> Some (queueMessage targetId (SignalFrame kind payload (the clientId)) st1))
      | OtherType t \<Rightarrow> Some st1)"


section \<open>Derived predicates and example states\<close>

text \<open>
  The record under the manager's key is expired when it is older than the heartbeat
  timeout; the live ControllerRecords of a store are those of any key that are not.
\<close>

definition manager_expired :: "state \<Rightarrow> bool" where
  "manager_expired st =
     (case kv_get ACTIVE_CONTROLLER_KEY st of
        Some (VController r) \<Rightarrow> now st - cr_timestamp r > HEARTBEAT_TIMEOUT_MS
      | _ \<Rightarrow> False)"

definition live_controller_records :: "state \<Rightarrow> (kv_key \<times> ControllerRecord) list" where
  "live_controller_records st =
     concat (map (\<lambda>(k, v, e).
                    case v of
                      VController r \<Rightarrow>
                        if now st - cr_timestamp r > HEARTBEAT_TIMEOUT_MS then [] else [(k, r)]
                    | _ \<Rightarrow> [])
               (kv st))"

text \<open>
  An instance with an empty store at the instant 1000000; the same with controller
  \<open>sessionA\<close> leading since ten seconds; and the latter 20001 ms later, when the
  record is 30001 ms old.
\<close>

definition st0 :: state where
  "st0 = \<lparr>kv = [], now = 1000000, randomUUID = 0,
          ulid_gen = (\<lambda>n. ''01J'' @ replicate n (CHR ''0'')), ulid_calls = 0,
          instanceId = ''local'', sockets = [], activeConnections = [],
          pollingIntervals = [], activeControllers = [], activeWebRTCConnections = [],
          timers = [], nextTimer = 0\<rparr>"

definition leaderA :: ControllerRecord where
  "leaderA = \<lparr>cr_id = ''sessionA'', cr_timestamp = 990000,
              cr_instanceId = Some ''local'', cr_metadata = Some ''controller''\<rparr>"

definition st_leaderA :: state where
  "st_leaderA = st0\<lparr>kv := [(ACTIVE_CONTROLLER_KEY, VController leaderA, None)]\<rparr>"

definition st_expiredA :: state where
  "st_expiredA = st_leaderA\<lparr>now := 1020001\<rparr>"

text \<open>
  \<open>sessionA\<close> posts to \<^verbatim>\<open>/controller/lock\<close>, then \<open>sessionB\<close> posts to
  \<^verbatim>\<open>/controller/status\<close>, both without the heartbeat flag, on the empty store.
\<close>

definition two_leaders :: "state option" where
  "two_leaders =
     (case lock_POST 1 (Some ''sessionA'') (Some False) st0 of
        None \<Rightarrow> None
      | Some (resp, st1) \<Rightarrow> Some (snd (status_POST (Some ''sessionB'') (Some False) st1)))"

text \<open>
  A store in which \<open>sessionA\<close> leads under the manager's key and under the key of
  \<^verbatim>\<open>controller/status.ts\<close>.
\<close>

definition st_leaderA_both :: state where
  "st_leaderA_both =
     st0\<lparr>kv := [(ACTIVE_CONTROLLER_KEY, VController leaderA, None),
                 (status_ACTIVE_CONTROLLER_KEY,
                  VController \<lparr>cr_id = ''sessionA'', cr_timestamp = 990000,
                                cr_instanceId = None, cr_metadata = None\<rparr>, None)]\<rparr>"

text \<open>
  What a socket has been sent so far; whether an id has an open socket on this instance;
  the id of the record under the manager's key.
\<close>

definition sent_of :: "nat \<Rightarrow> state \<Rightarrow> frame list" where
  "sent_of s st = (case map_of (sockets st) s of Some k \<Rightarrow> sent k | None \<Rightarrow> [])"

definition has_open_socket :: "string \<Rightarrow> state \<Rightarrow> bool" where
  "has_open_socket targetId st =
     (case map_of (activeConnections st) targetId of
        Some targetSocket \<Rightarrow> socket_readyState targetSocket st = OPEN
      | None \<Rightarrow> False)"


text \<open>
  An instance to which the controller \<open>controller-abc\<close> (socket 0) and the synth
  \<open>synth-1\<close> (socket 1) are attached and registered; and the same instance when
  \<open>controller-abc\<close> leads since ten seconds.
\<close>

definition st_session :: state where
  "st_session =
     st0\<lparr>kv := [(getConnectionKey ''controller-abc'',
                  VClient \<lparr>cl_instanceId = ''local'', cl_lastSeen = 990000,
                            cl_connectionTimestamp = 990000, cl_reconnectionCount = 0,
                            cl_lastReconnectTime = None, cl_isController = True\<rparr>,
                  Some 1590000),
                 (getConnectionKey ''synth-1'',
                  VClient \<lparr>cl_instanceId = ''local'', cl_lastSeen = 980000,
                            cl_connectionTimestamp = 980000, cl_reconnectionCount = 0,
                            cl_lastReconnectTime = None, cl_isController = False\<rparr>,
                  Some 1580000)],
          sockets := [(0, \<lparr>readyState = OPEN, sent = [], closedWith = None\<rparr>),
                      (1, \<lparr>readyState = OPEN, sent = [], closedWith = None\<rparr>)],
          activeConnections := [(''controller-abc'', 0), (''synth-1'', 1)],
          activeControllers := [''controller-abc'']\<rparr>"

definition leader_abc :: ControllerRecord where
  "leader_abc = \<lparr>cr_id = ''controller-abc'', cr_timestamp = 990000,
                  cr_instanceId = Some ''local'', cr_metadata = Some ''controller''\<rparr>"

definition st_session_led :: state where
  "st_session_led =
     st_session\<lparr>kv := kv st_session @ [(ACTIVE_CONTROLLER_KEY, VController leader_abc, None)]\<rparr>"

text \<open>
  An instance on which \<open>synth-z\<close> is registered on socket 1, since 100 seconds.
\<close>

definition st_synth_z :: state where
  "st_synth_z =
     st0\<lparr>kv := [(getConnectionKey ''synth-z'',
                  VClient \<lparr>cl_instanceId = ''local'', cl_lastSeen = 900000,
                            cl_connectionTimestamp = 900000, cl_reconnectionCount = 0,
                            cl_lastReconnectTime = None, cl_isController = False\<rparr>,
                  Some 1500000)],
          sockets := [(1, \<lparr>readyState = OPEN, sent = [], closedWith = None\<rparr>),
                      (2, \<lparr>readyState = OPEN, sent = [], closedWith = None\<rparr>)],
          activeConnections := [(''synth-z'', 1)],
          pollingIntervals := [(''synth-z'', 0)],
          timers := [(0, Interval 500 (ProcessMessages ''synth-z'' 1))],
          nextTimer := 1\<rparr>"

text \<open>
  A store with \<open>synth-y\<close>, registered five seconds ago, and \<open>synth-old\<close>,
  registered 100 seconds ago, while the only controller reports no peer connection.
\<close>

definition st_reaper :: state where
  "st_reaper =
     st0\<lparr>kv := [(getConnectionKey ''synth-y'',
                  VClient \<lparr>cl_instanceId = ''local'', cl_lastSeen = 995000,
                            cl_connectionTimestamp = 995000, cl_reconnectionCount = 0,
                            cl_lastReconnectTime = None, cl_isController = False\<rparr>,
                  Some 1595000),
                 (getConnectionKey ''synth-old'',
                  VClient \<lparr>cl_instanceId = ''local'', cl_lastSeen = 900000,
                            cl_connectionTimestamp = 900000, cl_reconnectionCount = 0,
                            cl_lastReconnectTime = None, cl_isController = False\<rparr>,
                  Some 1500000)],
          activeWebRTCConnections := [(''controller-abc'', [])]\<rparr>"

lemmas example_defs = st0_def leaderA_def st_leaderA_def st_expiredA_def st_leaderA_both_def
  st_session_def leader_abc_def st_session_led_def st_synth_z_def st_reaper_def
  ACTIVE_CONTROLLER_KEY_def CONTROLLER_NOTIFICATION_KEY_def CONTROLLER_LOCK_KEY_def
  status_ACTIVE_CONTROLLER_KEY_def status_CONTROLLER_CHANGE_NOTIFICATION_KEY_def
  HEARTBEAT_TIMEOUT_MS_def status_HEARTBEAT_TIMEOUT_MS_def
  getConnectionKey_def CONNECTION_KEY_PREFIX_def getMessagesKey_def MESSAGE_KEY_PREFIX_def
  CLIENT_GRACE_PERIOD_MS_def CLIENT_TTL_MS_def QUEUE_TTL_MS_def

section \<open>Lemmas about the store\<close>

lemma kv_get_kv_set: "kv_get k (kv_set k' v e st) = (if k = k' then Some v else kv_get k st)"
  by (simp add: kv_get_def kv_set_def update_conv')

lemma kv_get_kv_delete: "kv_get k (kv_delete k' st) = (if k = k' then None else kv_get k st)"
  by (simp add: kv_get_def kv_delete_def delete_conv')

lemma kv_distinct_preserved:
  "distinct (map fst (kv st)) \<Longrightarrow> distinct (map fst (kv (kv_set k v e st)))"
  "distinct (map fst (kv st)) \<Longrightarrow> distinct (map fst (kv (kv_delete k st)))"
  by (simp_all add: kv_set_def kv_delete_def distinct_update distinct_delete)

lemma kv_get_other_fields:
  "kv_get k (st\<lparr>randomUUID := u\<rparr>) = kv_get k st"
  "kv_get k (st\<lparr>ulid_calls := c\<rparr>) = kv_get k st"
  "kv_get k (st\<lparr>sockets := ss\<rparr>) = kv_get k st"
  "kv_get k (st\<lparr>activeConnections := ac\<rparr>) = kv_get k st"
  "kv_get k (st\<lparr>activeControllers := ad\<rparr>) = kv_get k st"
  "kv_get k (st\<lparr>pollingIntervals := p\<rparr>) = kv_get k st"
  "kv_get k (st\<lparr>timers := ts\<rparr>) = kv_get k st"
  "kv_get k (st\<lparr>nextTimer := nt\<rparr>) = kv_get k st"
  by (simp_all add: kv_get_def)

lemma now_kv_set: "now (kv_set k v e st) = now st"
  by (simp add: kv_set_def)

lemma now_kv_delete: "now (kv_delete k st) = now st"
  by (simp add: kv_delete_def)

lemma kv_get_createControllerChangeNotification:
  "kv_get k (createControllerChangeNotification c st) =
     (if k = CONTROLLER_NOTIFICATION_KEY
      then Some (VNotification \<lparr>cn_controllerId = c, cn_timestamp = now st,
                                 cn_notificationId = randomUUID st\<rparr>)
      else kv_get k st)"
  by (simp add: createControllerChangeNotification_def kv_get_other_fields kv_get_kv_set)

lemma now_createControllerChangeNotification:
  "now (createControllerChangeNotification c st) = now st"
  by (simp add: createControllerChangeNotification_def kv_set_def)

section \<open>The leadership service\<close>

subsection \<open>Reading the active controller\<close>

text \<open>
  With an expired record under the manager's key, \<^verbatim>\<open>getActiveController\<close> calls
  \<^verbatim>\<open>clearActiveController\<close>, which starts by calling \<^verbatim>\<open>getActiveController\<close>, which
  finds the same record: neither returns, whatever the bound.
\<close>

lemma expired_diverges_both:
  "manager_expired st \<Longrightarrow>
     getActiveController n st = None \<and> clearActiveController n c st = None"
proof (induction n arbitrary: c)
  case 0
  show ?case by simp
next
  case (Suc n)
  from Suc.prems obtain r where r: "kv_get ACTIVE_CONTROLLER_KEY st = Some (VController r)"
    "now st - cr_timestamp r > HEARTBEAT_TIMEOUT_MS"
    by (auto simp: manager_expired_def split: option.splits kv_value.splits)
  from Suc.IH[OF Suc.prems] have ih: "getActiveController n st = None"
    "\<And>c. clearActiveController n c st = None" by auto
  show ?case using r ih by simp
qed

lemma getActiveController_live:
  "\<not> manager_expired st \<Longrightarrow>
     getActiveController (Suc n) st =
       Some (case kv_get ACTIVE_CONTROLLER_KEY st of Some (VController r) \<Rightarrow> Some r | _ \<Rightarrow> None, st)"
  by (auto simp: manager_expired_def split: option.splits kv_value.splits)

lemma getActiveController_Some_state:
  assumes "getActiveController n st = Some (c, st')"
  shows "st' = st \<and> \<not> manager_expired st"
proof (cases "manager_expired st")
  case True
  with assms show ?thesis by (simp add: expired_diverges_both)
next
  case False
  show ?thesis
  proof (cases n)
    case 0
    with assms show ?thesis by simp
  next
    case (Suc m)
    have "getActiveController (Suc m) st =
            Some (case kv_get ACTIVE_CONTROLLER_KEY st of Some (VController r) \<Rightarrow> Some r | _ \<Rightarrow> None, st)"
      by (rule getActiveController_live[OF False])
    with assms Suc False show ?thesis by (simp only: option.inject prod.inject) simp
  qed
qed

text \<open>
  So no call of the manager that starts by reading the active controller returns once the
  record is expired; and a record that is expired stays so as time passes.
\<close>

lemma manager_expired_later:
  "manager_expired st \<Longrightarrow> now st \<le> t \<Longrightarrow> manager_expired (st\<lparr>now := t\<rparr>)"
  by (auto simp: manager_expired_def kv_get_def split: option.splits kv_value.splits)

lemma manager_calls_on_expired_record:
  assumes "manager_expired st"
  shows "setActiveController fuel c hb st = None"
    and "forceResetControllerState fuel st = None"
    and "lock_POST fuel (Some (x # xs)) (Some hb) st = None"
  using assms
  by (simp_all add: setActiveController_def forceResetControllerState_def lock_POST_def
      expired_diverges_both)

text \<open>
  C1. The claim: with a ControllerRecord older than the heartbeat timeout in the store,
  one call of \<^verbatim>\<open>getActive()\<close> terminates, deletes the record, publishes a null
  notification and returns null. The manager's \<^verbatim>\<open>getActiveController\<close> does not:
  on such a store it never returns.
\<close>

theorem getActiveController_expired_never_returns:
  assumes "kv_get ACTIVE_CONTROLLER_KEY st = Some (VController r)"
    and "now st - cr_timestamp r > HEARTBEAT_TIMEOUT_MS"
  shows "getActiveController fuel st = None"
proof -
  from assms have "manager_expired st" by (simp add: manager_expired_def)
  then show ?thesis by (simp add: expired_diverges_both)
qed

theorem getActiveController_expired_never_returns_witness:
  "kv_get ACTIVE_CONTROLLER_KEY st_expiredA = Some (VController leaderA)
   \<and> now st_expiredA - cr_timestamp leaderA > HEARTBEAT_TIMEOUT_MS
   \<and> (\<forall>fuel. getActiveController fuel st_expiredA = None)"
proof -
  have a: "kv_get ACTIVE_CONTROLLER_KEY st_expiredA = Some (VController leaderA)"
    by (simp add: kv_get_def st_expiredA_def st_leaderA_def st0_def)
  have b: "now st_expiredA - cr_timestamp leaderA > HEARTBEAT_TIMEOUT_MS"
    by (simp add: st_expiredA_def st_leaderA_def st0_def leaderA_def HEARTBEAT_TIMEOUT_MS_def)
  show ?thesis using a b getActiveController_expired_never_returns[OF a b] by simp
qed

text \<open>
  The same function of \<^verbatim>\<open>controller/status.ts\<close>, on its own key, does what the claim
  says: it deletes the record itself instead of calling \<^verbatim>\<open>clearActiveController\<close>.
\<close>

lemma status_getActiveController_expired:
  assumes "kv_get status_ACTIVE_CONTROLLER_KEY st = Some (VController r)"
    and "now st - cr_timestamp r > status_HEARTBEAT_TIMEOUT_MS"
  shows "fst (status_getActiveController st) = None"
    and "kv_get status_ACTIVE_CONTROLLER_KEY (snd (status_getActiveController st)) = None"
    and "kv_get status_CONTROLLER_CHANGE_NOTIFICATION_KEY (snd (status_getActiveController st)) =
           Some (VNotification \<lparr>cn_controllerId = None, cn_timestamp = now st,
                                cn_notificationId = randomUUID st\<rparr>)"
proof -
  have ne: "status_CONTROLLER_CHANGE_NOTIFICATION_KEY \<noteq> status_ACTIVE_CONTROLLER_KEY"
    by (simp add: status_ACTIVE_CONTROLLER_KEY_def status_CONTROLLER_CHANGE_NOTIFICATION_KEY_def)
  have eq: "status_getActiveController st =
      (None, status_createControllerChangeNotification None
               (kv_delete status_ACTIVE_CONTROLLER_KEY st))"
    using assms by (simp add: status_getActiveController_def)
  show "fst (status_getActiveController st) = None" by (simp add: eq)
  show "kv_get status_ACTIVE_CONTROLLER_KEY (snd (status_getActiveController st)) = None"
    using ne by (simp add: eq status_createControllerChangeNotification_def
        kv_get_other_fields kv_get_kv_set kv_get_kv_delete)
  show "kv_get status_CONTROLLER_CHANGE_NOTIFICATION_KEY (snd (status_getActiveController st)) =
           Some (VNotification \<lparr>cn_controllerId = None, cn_timestamp = now st,
                                cn_notificationId = randomUUID st\<rparr>)"
    by (simp add: eq status_createControllerChangeNotification_def
        kv_get_other_fields kv_get_kv_set now_kv_delete kv_delete_def)
qed

subsection \<open>Setting the active controller\<close>

text \<open>
  C7. When \<^verbatim>\<open>setActive(id)\<close> is called with the id of the current, non-expired leader,
  the record is rewritten with the current time as its timestamp and nothing else
  changed, the call returns \<open>changed = false\<close>, and the notification key is left as
  it was; this for a heartbeat and for an activation alike.
\<close>

theorem setActiveController_same_id:
  assumes "kv_get ACTIVE_CONTROLLER_KEY st = Some (VController r)"
    and "\<not> now st - cr_timestamp r > HEARTBEAT_TIMEOUT_MS"
    and "cr_id r = controllerId"
  shows "setActiveController (Suc n) controllerId isHeartbeat st =
           Some (False, kv_set ACTIVE_CONTROLLER_KEY
                          (VController (r\<lparr>cr_timestamp := now st\<rparr>)) None st)
         \<and> kv_get CONTROLLER_NOTIFICATION_KEY
             (kv_set ACTIVE_CONTROLLER_KEY (VController (r\<lparr>cr_timestamp := now st\<rparr>)) None st) =
           kv_get CONTROLLER_NOTIFICATION_KEY st"
proof -
  have ne: "\<not> manager_expired st" using assms by (simp add: manager_expired_def)
  have "getActiveController (Suc n) st = Some (Some r, st)"
    using assms by (simp add: getActiveController_live[OF ne])
  then have "setActiveController (Suc n) controllerId isHeartbeat st =
           Some (False, kv_set ACTIVE_CONTROLLER_KEY
                          (VController (r\<lparr>cr_timestamp := now st\<rparr>)) None st)"
    using assms(3) by (simp add: setActiveController_def)
  moreover have "CONTROLLER_NOTIFICATION_KEY \<noteq> ACTIVE_CONTROLLER_KEY"
    by (simp add: CONTROLLER_NOTIFICATION_KEY_def ACTIVE_CONTROLLER_KEY_def)
  ultimately show ?thesis by (simp add: kv_get_kv_set)
qed

theorem setActiveController_same_id_witness:
  "kv_get ACTIVE_CONTROLLER_KEY st_leaderA = Some (VController leaderA)
   \<and> \<not> now st_leaderA - cr_timestamp leaderA > HEARTBEAT_TIMEOUT_MS
   \<and> cr_id leaderA = ''sessionA''
   \<and> setActiveController 1 ''sessionA'' False st_leaderA =
       Some (False, st_leaderA\<lparr>kv := [(ACTIVE_CONTROLLER_KEY,
                                        VController (leaderA\<lparr>cr_timestamp := 1000000\<rparr>), None)]\<rparr>)"
proof -
  have a: "kv_get ACTIVE_CONTROLLER_KEY st_leaderA = Some (VController leaderA)"
    by (simp add: kv_get_def st_leaderA_def st0_def)
  have b: "\<not> now st_leaderA - cr_timestamp leaderA > HEARTBEAT_TIMEOUT_MS"
    by (simp add: st_leaderA_def st0_def leaderA_def HEARTBEAT_TIMEOUT_MS_def)
  have c: "cr_id leaderA = ''sessionA''" by (simp add: leaderA_def)
  from setActiveController_same_id[OF a b c, of 0 False]
  show ?thesis using a b c by (simp add: kv_set_def st_leaderA_def st0_def)
qed

text \<open>
  C5. When \<^verbatim>\<open>setActive(id, isHeartbeat = true)\<close> is called while a non-expired record
  of another id is stored, the call returns \<open>changed = false\<close> and the state is the
  one before the call: the record is unchanged and no notification is written. This holds
  for the manager and for \<^verbatim>\<open>controller/status.ts\<close>.
\<close>

theorem heartbeat_of_non_leader_rejected:
  "(kv_get ACTIVE_CONTROLLER_KEY st = Some (VController r)
      \<and> \<not> now st - cr_timestamp r > HEARTBEAT_TIMEOUT_MS \<and> cr_id r \<noteq> controllerId
     \<longrightarrow> setActiveController (Suc n) controllerId True st = Some (False, st))
   \<and> (kv_get status_ACTIVE_CONTROLLER_KEY st = Some (VController r')
      \<and> \<not> now st - cr_timestamp r' > status_HEARTBEAT_TIMEOUT_MS \<and> cr_id r' \<noteq> controllerId
     \<longrightarrow> status_setActiveController controllerId True st = (False, st))"
proof (intro conjI impI)
  assume a: "kv_get ACTIVE_CONTROLLER_KEY st = Some (VController r)
      \<and> \<not> now st - cr_timestamp r > HEARTBEAT_TIMEOUT_MS \<and> cr_id r \<noteq> controllerId"
  then have ne: "\<not> manager_expired st" by (simp add: manager_expired_def)
  have "getActiveController (Suc n) st = Some (Some r, st)"
    using a by (simp add: getActiveController_live[OF ne])
  then show "setActiveController (Suc n) controllerId True st = Some (False, st)"
    using a by (simp add: setActiveController_def)
next
  assume a: "kv_get status_ACTIVE_CONTROLLER_KEY st = Some (VController r')
      \<and> \<not> now st - cr_timestamp r' > status_HEARTBEAT_TIMEOUT_MS \<and> cr_id r' \<noteq> controllerId"
  then show "status_setActiveController controllerId True st = (False, st)"
    by (simp add: status_setActiveController_def status_getActiveController_def)
qed

theorem heartbeat_of_non_leader_rejected_witness:
  "(kv_get ACTIVE_CONTROLLER_KEY st_leaderA_both = Some (VController leaderA)
      \<and> \<not> now st_leaderA_both - cr_timestamp leaderA > HEARTBEAT_TIMEOUT_MS
      \<and> cr_id leaderA \<noteq> ''sessionB'')
   \<and> setActiveController (Suc 0) ''sessionB'' True st_leaderA_both = Some (False, st_leaderA_both)
   \<and> (kv_get status_ACTIVE_CONTROLLER_KEY st_leaderA_both =
         Some (VController \<lparr>cr_id = ''sessionA'', cr_timestamp = 990000,
                             cr_instanceId = None, cr_metadata = None\<rparr>)
      \<and> \<not> now st_leaderA_both - 990000 > status_HEARTBEAT_TIMEOUT_MS
      \<and> ''sessionA'' \<noteq> ''sessionB'')
   \<and> status_setActiveController ''sessionB'' True st_leaderA_both = (False, st_leaderA_both)"
proof -
  have a: "kv_get ACTIVE_CONTROLLER_KEY st_leaderA_both = Some (VController leaderA)
      \<and> \<not> now st_leaderA_both - cr_timestamp leaderA > HEARTBEAT_TIMEOUT_MS
      \<and> cr_id leaderA \<noteq> ''sessionB''"
    by (simp add: kv_get_def example_defs)
  have b: "kv_get status_ACTIVE_CONTROLLER_KEY st_leaderA_both =
         Some (VController \<lparr>cr_id = ''sessionA'', cr_timestamp = 990000,
                             cr_instanceId = None, cr_metadata = None\<rparr>)
      \<and> \<not> now st_leaderA_both - 990000 > status_HEARTBEAT_TIMEOUT_MS
      \<and> ''sessionA'' \<noteq> ''sessionB''"
    by (simp add: kv_get_def example_defs)
  from heartbeat_of_non_leader_rejected[of st_leaderA_both leaderA "''sessionB''" 0
      "\<lparr>cr_id = ''sessionA'', cr_timestamp = 990000, cr_instanceId = None, cr_metadata = None\<rparr>"]
    a b
  show ?thesis by simp
qed

subsection \<open>POST /controller/lock\<close>

lemma setActiveController_returns:
  assumes "\<not> manager_expired st"
  shows "\<exists>b st1. setActiveController (Suc n) c hb st = Some (b, st1) \<and> \<not> manager_expired st1"
proof -
  let ?cur = "case kv_get ACTIVE_CONTROLLER_KEY st of Some (VController r) \<Rightarrow> Some r | _ \<Rightarrow> None"
  have g: "getActiveController (Suc n) st = Some (?cur, st)"
    by (rule getActiveController_live[OF assms])
  have fresh: "\<And>r st'. kv_get ACTIVE_CONTROLLER_KEY st' = Some (VController r) \<Longrightarrow>
      cr_timestamp r = now st' \<Longrightarrow> \<not> manager_expired st'"
    by (simp add: manager_expired_def HEARTBEAT_TIMEOUT_MS_def)
  have ne: "CONTROLLER_NOTIFICATION_KEY \<noteq> ACTIVE_CONTROLLER_KEY"
    by (simp add: CONTROLLER_NOTIFICATION_KEY_def ACTIVE_CONTROLLER_KEY_def)
  show ?thesis
  proof (cases "case ?cur of Some c' \<Rightarrow> cr_id c' = c | None \<Rightarrow> False")
    case True
    then obtain r where r: "?cur = Some r" by (auto split: option.splits)
    let ?st1 = "kv_set ACTIVE_CONTROLLER_KEY (VController (r\<lparr>cr_timestamp := now st\<rparr>)) None st"
    have "setActiveController (Suc n) c hb st = Some (False, ?st1)"
      using True r by (simp only: setActiveController_def g) simp
    moreover have "\<not> manager_expired ?st1"
      by (rule fresh[where r="r\<lparr>cr_timestamp := now st\<rparr>"]) (simp_all add: kv_get_kv_set now_kv_set)
    ultimately show ?thesis by blast
  next
    case False
    show ?thesis
    proof (cases "hb \<and> (case ?cur of Some c' \<Rightarrow> cr_id c' \<noteq> c | None \<Rightarrow> False)")
      case True
      have "setActiveController (Suc n) c hb st = Some (False, st)"
        using False True by (simp only: setActiveController_def g) simp
      with assms show ?thesis by blast
    next
      case F2: False
      let ?r = "\<lparr>cr_id = c, cr_timestamp = now st, cr_instanceId = Some (instanceId st),
                  cr_metadata = Some ''controller''\<rparr>"
      let ?st1 = "createControllerChangeNotification (Some c)
                   (kv_set ACTIVE_CONTROLLER_KEY (VController ?r) None st)"
      have "setActiveController (Suc n) c hb st = Some (True, ?st1)"
        using False F2 by (simp only: setActiveController_def g) simp
      moreover have "\<not> manager_expired ?st1"
        by (rule fresh[where r="?r"])
          (simp_all add: kv_get_createControllerChangeNotification
            now_createControllerChangeNotification kv_get_kv_set now_kv_set ne[symmetric])
      ultimately show ?thesis by blast
    qed
  qed
qed

lemma setActiveController_now:
  assumes "setActiveController fuel c hb st = Some (b, st1)"
  shows "now st1 = now st"
proof -
  from assms obtain cur st0' where g: "getActiveController fuel st = Some (cur, st0')"
    by (auto simp: setActiveController_def split: option.splits)
  then have e: "st0' = st" using getActiveController_Some_state by blast
  show ?thesis using assms
    by (auto simp: setActiveController_def g e createControllerChangeNotification_def
        kv_set_def split: if_splits)
qed

lemma setActiveController_rejects:
  assumes "setActiveController fuel c True st = Some (b, st1)"
    and "kv_get ACTIVE_CONTROLLER_KEY st = Some (VController r)"
    and "cr_id r \<noteq> c"
  shows "b = False \<and> st1 = st \<and> \<not> manager_expired st"
proof -
  from assms(1) obtain cur st0' where g: "getActiveController fuel st = Some (cur, st0')"
    by (auto simp: setActiveController_def split: option.splits)
  then have e: "st0' = st" "\<not> manager_expired st" using getActiveController_Some_state by blast+
  from g obtain m where m: "fuel = Suc m" by (cases fuel) auto
  have "cur = Some r"
    using g assms(2) e(1) unfolding m getActiveController_live[OF e(2)] by simp
  then show ?thesis using assms(1,3) e by (simp add: setActiveController_def g)
qed

lemma manager_expired_kv_set_other:
  "k \<noteq> ACTIVE_CONTROLLER_KEY \<Longrightarrow> manager_expired (kv_set k v e st) = manager_expired st"
  by (simp add: manager_expired_def kv_get_kv_set now_kv_set split: option.splits kv_value.splits)

lemma lock_key_distinct:
  "CONTROLLER_LOCK_KEY \<noteq> ACTIVE_CONTROLLER_KEY"
  "CONTROLLER_LOCK_KEY \<noteq> CONTROLLER_NOTIFICATION_KEY"
  by (simp_all add: CONTROLLER_LOCK_KEY_def ACTIVE_CONTROLLER_KEY_def CONTROLLER_NOTIFICATION_KEY_def)

lemma lock_POST_returns:
  assumes "controllerId \<noteq> []" and "\<not> manager_expired st"
  shows "\<exists>resp st'. lock_POST (Suc n) (Some controllerId) (Some isHeartbeat) st =
                      Some (Ok200 resp, st')"
proof -
  from setActiveController_returns[OF assms(2), of n controllerId isHeartbeat]
  obtain b st1 where s: "setActiveController (Suc n) controllerId isHeartbeat st = Some (b, st1)"
    and ne: "\<not> manager_expired st1" by blast
  let ?st2 = "kv_set CONTROLLER_LOCK_KEY
                (VLock \<lparr>lk_userId = controllerId, lk_timestamp = now st1\<rparr>) None st1"
  have "\<not> manager_expired ?st2"
    using ne by (simp add: manager_expired_kv_set_other lock_key_distinct)
  from getActiveController_live[OF this, of n]
  obtain cur where "getActiveController (Suc n) ?st2 = Some (cur, ?st2)" by blast
  then show ?thesis using assms(1) s by (simp add: lock_POST_def)
qed

lemma lock_POST_result:
  assumes "lock_POST fuel (Some controllerId) (Some isHeartbeat) st = Some (resp, st')"
    and "controllerId \<noteq> []"
  shows "\<exists>changed st1 cur.
           setActiveController fuel controllerId isHeartbeat st = Some (changed, st1)
           \<and> st' = kv_set CONTROLLER_LOCK_KEY
                     (VLock \<lparr>lk_userId = controllerId, lk_timestamp = now st\<rparr>) None st1
           \<and> getActiveController fuel st' = Some (cur, st')
           \<and> resp = Ok200 \<lparr>pr_success = True,
                            pr_isActive = (map_option cr_id cur = Some controllerId),
                            pr_activeController = id_or_null cur,
                            pr_changed = changed,
                            pr_timestamp = now st,
                            pr_timeoutMs = HEARTBEAT_TIMEOUT_MS\<rparr>"
proof -
  from assms obtain changed st1 where
    s: "setActiveController fuel controllerId isHeartbeat st = Some (changed, st1)"
    by (auto simp: lock_POST_def split: option.splits)
  have n1: "now st1 = now st" by (rule setActiveController_now[OF s])
  let ?st2 = "kv_set CONTROLLER_LOCK_KEY
                (VLock \<lparr>lk_userId = controllerId, lk_timestamp = now st1\<rparr>) None st1"
  from assms s obtain cur st3 where g: "getActiveController fuel ?st2 = Some (cur, st3)"
    by (auto simp: lock_POST_def split: option.splits)
  then have e: "st3 = ?st2" using getActiveController_Some_state by blast
  have "resp = Ok200 \<lparr>pr_success = True,
                            pr_isActive = (map_option cr_id cur = Some controllerId),
                            pr_activeController = id_or_null cur,
                            pr_changed = changed,
                            pr_timestamp = now st3,
                            pr_timeoutMs = HEARTBEAT_TIMEOUT_MS\<rparr> \<and> st' = st3"
    using assms s g by (auto simp: lock_POST_def)
  then show ?thesis using s g e n1 by (simp add: now_kv_set)
qed

lemma lock_POST_unparsed_body:
  "controllerId \<noteq> [] \<Longrightarrow> lock_POST fuel (Some controllerId) None st = Some (ServerError500, st)"
  by (simp add: lock_POST_def)

text \<open>
  C10, as the code has it. An authenticated POST to \<^verbatim>\<open>/controller/lock\<close> whose body
  parses is answered 200 whenever the stored record is not expired, and every such POST
  that is answered has overwritten the legacy lock key with the caller's id and the current
  time. This includes the heartbeat of a controller that is not the leader: the
  ControllerRecord and the notification are left as they were, the answer says
  \<open>changed = false\<close> and \<open>isActive = false\<close>, and the legacy lock names the caller.
  An authenticated POST whose body does not parse is answered 500 and writes nothing.
\<close>

theorem lock_POST_with_body_writes_legacy_lock:
  assumes "controllerId \<noteq> []"
  shows "(\<not> manager_expired st \<longrightarrow>
            (\<exists>resp st'. lock_POST (Suc n) (Some controllerId) (Some isHeartbeat) st =
                          Some (Ok200 resp, st')))
       \<and> (\<forall>fuel resp st'.
            lock_POST fuel (Some controllerId) (Some isHeartbeat) st = Some (resp, st') \<longrightarrow>
              kv_get CONTROLLER_LOCK_KEY st' =
                Some (VLock \<lparr>lk_userId = controllerId, lk_timestamp = now st\<rparr>)
              \<and> (\<forall>r. isHeartbeat \<and> kv_get ACTIVE_CONTROLLER_KEY st = Some (VController r)
                       \<and> cr_id r \<noteq> controllerId \<longrightarrow>
                     kv_get ACTIVE_CONTROLLER_KEY st' = Some (VController r)
                     \<and> kv_get CONTROLLER_NOTIFICATION_KEY st' =
                         kv_get CONTROLLER_NOTIFICATION_KEY st
                     \<and> resp = Ok200 \<lparr>pr_success = True, pr_isActive = False,
                                      pr_activeController = id_or_null (Some r),
                                      pr_changed = False, pr_timestamp = now st,
                                      pr_timeoutMs = HEARTBEAT_TIMEOUT_MS\<rparr>))
       \<and> (\<forall>fuel. lock_POST fuel (Some controllerId) None st = Some (ServerError500, st))"
proof (intro conjI impI allI)
  assume "\<not> manager_expired st"
  then show "\<exists>resp st'. lock_POST (Suc n) (Some controllerId) (Some isHeartbeat) st =
                          Some (Ok200 resp, st')"
    by (rule lock_POST_returns[OF assms])
next
  fix fuel resp st'
  assume p: "lock_POST fuel (Some controllerId) (Some isHeartbeat) st = Some (resp, st')"
  from lock_POST_result[OF p assms]
  show "kv_get CONTROLLER_LOCK_KEY st' =
          Some (VLock \<lparr>lk_userId = controllerId, lk_timestamp = now st\<rparr>)"
    by (auto simp: kv_get_kv_set)
next
  fix fuel resp st' r
  assume p: "lock_POST fuel (Some controllerId) (Some isHeartbeat) st = Some (resp, st')"
    and h: "isHeartbeat \<and> kv_get ACTIVE_CONTROLLER_KEY st = Some (VController r)
              \<and> cr_id r \<noteq> controllerId"
  from lock_POST_result[OF p assms] obtain changed st1 cur where
    s: "setActiveController fuel controllerId isHeartbeat st = Some (changed, st1)"
    and st': "st' = kv_set CONTROLLER_LOCK_KEY
                     (VLock \<lparr>lk_userId = controllerId, lk_timestamp = now st\<rparr>) None st1"
    and g: "getActiveController fuel st' = Some (cur, st')"
    and resp: "resp = Ok200 \<lparr>pr_success = True,
                            pr_isActive = (map_option cr_id cur = Some controllerId),
                            pr_activeController = id_or_null cur,
                            pr_changed = changed,
                            pr_timestamp = now st,
                            pr_timeoutMs = HEARTBEAT_TIMEOUT_MS\<rparr>" by blast
  from h have hb: "isHeartbeat = True" and hr: "kv_get ACTIVE_CONTROLLER_KEY st = Some (VController r)"
    and hn: "cr_id r \<noteq> controllerId" by simp_all
  have rej: "changed = False \<and> st1 = st \<and> \<not> manager_expired st"
    by (rule setActiveController_rejects[OF s[unfolded hb] hr hn])
  have a: "kv_get ACTIVE_CONTROLLER_KEY st' = Some (VController r)"
    using h rej st' lock_key_distinct by (simp add: kv_get_kv_set)
  have b: "kv_get CONTROLLER_NOTIFICATION_KEY st' = kv_get CONTROLLER_NOTIFICATION_KEY st"
    using rej st' lock_key_distinct by (simp add: kv_get_kv_set)
  from g obtain m where m: "fuel = Suc m" by (cases fuel) auto
  from g have "\<not> manager_expired st'" using getActiveController_Some_state by blast
  from getActiveController_live[OF this, of m] g a have "cur = Some r"
    by (simp add: m)
  with h rej resp have c: "resp = Ok200 \<lparr>pr_success = True, pr_isActive = False,
                                      pr_activeController = id_or_null (Some r),
                                      pr_changed = False, pr_timestamp = now st,
                                      pr_timeoutMs = HEARTBEAT_TIMEOUT_MS\<rparr>"
    by simp
  show "kv_get ACTIVE_CONTROLLER_KEY st' = Some (VController r)" by (rule a)
  show "kv_get CONTROLLER_NOTIFICATION_KEY st' = kv_get CONTROLLER_NOTIFICATION_KEY st" by (rule b)
  show "resp = Ok200 \<lparr>pr_success = True, pr_isActive = False,
                                      pr_activeController = id_or_null (Some r),
                                      pr_changed = False, pr_timestamp = now st,
                                      pr_timeoutMs = HEARTBEAT_TIMEOUT_MS\<rparr>" by (rule c)
next
  fix fuel
  show "lock_POST fuel (Some controllerId) None st = Some (ServerError500, st)"
    by (rule lock_POST_unparsed_body[OF assms])
qed

theorem lock_POST_with_body_writes_legacy_lock_witness:
  "''sessionB'' \<noteq> [] \<and> \<not> manager_expired st_leaderA
   \<and> kv_get ACTIVE_CONTROLLER_KEY st_leaderA = Some (VController leaderA)
   \<and> cr_id leaderA \<noteq> ''sessionB''
   \<and> lock_POST (Suc 0) (Some ''sessionB'') (Some True) st_leaderA =
       Some (Ok200 \<lparr>pr_success = True, pr_isActive = False,
                    pr_activeController = Some ''sessionA'', pr_changed = False,
                    pr_timestamp = 1000000, pr_timeoutMs = 30000\<rparr>,
             st_leaderA\<lparr>kv := [(ACTIVE_CONTROLLER_KEY, VController leaderA, None),
                                (CONTROLLER_LOCK_KEY,
                                 VLock \<lparr>lk_userId = ''sessionB'', lk_timestamp = 1000000\<rparr>,
                                 None)]\<rparr>)
   \<and> kv_get CONTROLLER_LOCK_KEY
        (st_leaderA\<lparr>kv := [(ACTIVE_CONTROLLER_KEY, VController leaderA, None),
                            (CONTROLLER_LOCK_KEY,
                             VLock \<lparr>lk_userId = ''sessionB'', lk_timestamp = 1000000\<rparr>,
                             None)]\<rparr>) =
       Some (VLock \<lparr>lk_userId = ''sessionB'', lk_timestamp = now st_leaderA\<rparr>)
   \<and> kv_get ACTIVE_CONTROLLER_KEY
        (st_leaderA\<lparr>kv := [(ACTIVE_CONTROLLER_KEY, VController leaderA, None),
                            (CONTROLLER_LOCK_KEY,
                             VLock \<lparr>lk_userId = ''sessionB'', lk_timestamp = 1000000\<rparr>,
                             None)]\<rparr>) =
       Some (VController leaderA)"
proof -
  let ?st' = "st_leaderA\<lparr>kv := [(ACTIVE_CONTROLLER_KEY, VController leaderA, None),
                            (CONTROLLER_LOCK_KEY,
                             VLock \<lparr>lk_userId = ''sessionB'', lk_timestamp = 1000000\<rparr>,
                             None)]\<rparr>"
  have a: "''sessionB'' \<noteq> []" by simp
  have b: "\<not> manager_expired st_leaderA"
    by (simp add: manager_expired_def kv_get_def example_defs)
  have r: "kv_get ACTIVE_CONTROLLER_KEY st_leaderA = Some (VController leaderA)"
    "cr_id leaderA \<noteq> ''sessionB''"
    by (simp_all add: kv_get_def example_defs)
  have c: "lock_POST (Suc 0) (Some ''sessionB'') (Some True) st_leaderA =
       Some (Ok200 \<lparr>pr_success = True, pr_isActive = False,
                    pr_activeController = Some ''sessionA'', pr_changed = False,
                    pr_timestamp = 1000000, pr_timeoutMs = 30000\<rparr>, ?st')"
    by (simp add: lock_POST_def setActiveController_def kv_get_def kv_set_def id_or_null_def
        example_defs)
  from lock_POST_with_body_writes_legacy_lock[OF a, of st_leaderA 0 True] c r
  have d: "kv_get CONTROLLER_LOCK_KEY ?st' =
       Some (VLock \<lparr>lk_userId = ''sessionB'', lk_timestamp = now st_leaderA\<rparr>)"
    and e: "kv_get ACTIVE_CONTROLLER_KEY ?st' = Some (VController leaderA)"
    by blast+
  show ?thesis using a b r c d e by blast
qed

text \<open>
  The claim as stated says that every authenticated POST overwrites the legacy lock key.
  \<open>sessionB\<close> posts a body that does not parse while \<open>sessionA\<close> leads: the answer
  is 500 and the store, which has no legacy lock, is as before.
\<close>

theorem lock_POST_unparsed_body_writes_no_lock:
  "''sessionB'' \<noteq> []
   \<and> lock_POST (Suc 0) (Some ''sessionB'') None st_leaderA = Some (ServerError500, st_leaderA)
   \<and> kv_get CONTROLLER_LOCK_KEY st_leaderA = None"
  by (simp add: lock_POST_def kv_get_def example_defs)

subsection \<open>Two leadership keys\<close>

text \<open>
  C3. The claim: at most one non-expired ControllerRecord is in the store, whichever
  operation wrote leadership last. The manager and \<^verbatim>\<open>controller/status.ts\<close> keep their
  records under different keys: after a POST to \<^verbatim>\<open>/controller/lock\<close> by one controller
  and a POST to \<^verbatim>\<open>/controller/status\<close> by another, the store holds two live
  ControllerRecords that name different controllers.
\<close>

theorem lock_POST_and_status_POST_two_leaders:
  "map_option live_controller_records two_leaders =
     Some [(ACTIVE_CONTROLLER_KEY,
            \<lparr>cr_id = ''sessionA'', cr_timestamp = 1000000,
              cr_instanceId = Some ''local'', cr_metadata = Some ''controller''\<rparr>),
           (status_ACTIVE_CONTROLLER_KEY,
            \<lparr>cr_id = ''sessionB'', cr_timestamp = 1000000,
              cr_instanceId = None, cr_metadata = None\<rparr>)]"
  by (simp add: two_leaders_def live_controller_records_def lock_POST_def status_POST_def
      setActiveController_def status_setActiveController_def status_getActiveController_def
      createControllerChangeNotification_def status_createControllerChangeNotification_def
      kv_get_def kv_set_def example_defs)


section \<open>The registry, the router and the reaper\<close>

subsection \<open>Writes of the message queue leave the other keys alone\<close>

lemma message_key_prefix: "prefix MESSAGE_KEY_PREFIX (getMessagesKey t @ [u])"
  by (simp add: getMessagesKey_def)

lemma kv_get_queueMessage_other:
  "\<not> prefix MESSAGE_KEY_PREFIX k \<Longrightarrow> kv_get k (queueMessage t f st) = kv_get k st"
  using message_key_prefix[of t "ulid_gen st (ulid_calls st)"]
  by (auto simp: queueMessage_def kv_get_other_fields kv_get_kv_set)

lemma socket_send_Some:
  "socket_send s f st = Some st' \<Longrightarrow> \<exists>ss. st' = st\<lparr>sockets := ss\<rparr>"
  by (auto simp: socket_send_def split: option.splits if_splits)

lemma kv_get_socket_send:
  "socket_send s f st = Some st' \<Longrightarrow> kv_get k st' = kv_get k st"
  by (auto dest!: socket_send_Some simp: kv_get_other_fields)

lemma kv_get_notify_local:
  "\<not> prefix MESSAGE_KEY_PREFIX k \<Longrightarrow>
     kv_get k (case notify_local cs f st of Inl x \<Rightarrow> x | Inr x \<Rightarrow> x) = kv_get k st"
proof (induction cs arbitrary: st)
  case Nil
  show ?case by simp
next
  case (Cons c cs)
  show ?case
    using Cons.prems
    by (auto simp: Cons.IH kv_get_queueMessage_other kv_get_socket_send split: option.splits)
qed

lemma kv_get_notify_directory:
  "\<not> prefix MESSAGE_KEY_PREFIX k \<Longrightarrow>
     kv_get k (notify_directory es ns f st) = kv_get k st"
  by (induction es ns f st rule: notify_directory.induct)
     (simp_all add: kv_get_queueMessage_other)

lemma kv_get_notifyControllers:
  assumes "\<not> prefix MESSAGE_KEY_PREFIX k"
  shows "kv_get k (notifyControllers f st) = kv_get k st"
proof (cases "notify_local (activeControllers st) f st")
  case (Inl x)
  with kv_get_notify_local[OF assms, of "activeControllers st" f st]
  show ?thesis by (simp add: notifyControllers_def)
next
  case (Inr x)
  with kv_get_notify_local[OF assms, of "activeControllers st" f st]
  show ?thesis by (simp add: notifyControllers_def kv_get_notify_directory[OF assms])
qed

lemma kv_get_remove_clients:
  "\<not> prefix MESSAGE_KEY_PREFIX k \<Longrightarrow> k \<notin> fst ` set cs \<Longrightarrow>
     kv_get k (remove_clients cs st) = kv_get k st"
  by (induction cs st rule: remove_clients.induct)
     (auto simp: kv_get_notifyControllers kv_get_kv_delete)

lemma kv_list_visible:
  assumes "distinct (map fst (kv st))" and "(k, v) \<in> set (kv_list pre st)"
  shows "kv_get k st = Some v"
proof -
  from assms(2) obtain e where "(k, (v, e)) \<in> set (kv st)"
    by (auto simp: kv_list_def)
  with assms(1) have "map_of (kv st) k = Some (v, e)" by simp
  then show ?thesis by (simp add: kv_get_def)
qed

lemma connection_key_not_message: "\<not> prefix MESSAGE_KEY_PREFIX (getConnectionKey s)"
  by (simp add: MESSAGE_KEY_PREFIX_def getConnectionKey_def CONNECTION_KEY_PREFIX_def)

subsection \<open>Registration\<close>

lemma closeExistingConnection_fields:
  "kv (closeExistingConnection i s st) = kv st"
  "now (closeExistingConnection i s st) = now st"
  "instanceId (closeExistingConnection i s st) = instanceId st"
  by (simp_all add: closeExistingConnection_def socket_close_def split: option.splits)

lemma kv_get_closeExistingConnection:
  "kv_get k (closeExistingConnection i s st) = kv_get k st"
  by (simp add: kv_get_def closeExistingConnection_fields)

lemma kv_get_restartPolling: "kv_get k (restartPolling i s st) = kv_get k st"
  by (simp add: kv_get_def restartPolling_def Let_def clear_timer_def set_timer_def
      split: option.splits)

lemma controllers_key_not_connection: "[''webrtc'', ''controllers'', i] \<noteq> getConnectionKey j"
  by (simp add: getConnectionKey_def CONNECTION_KEY_PREFIX_def)

subsection \<open>Broadcasts\<close>

lemma socket_send_open:
  assumes "socket_readyState s st = OPEN"
  shows "\<exists>ss. socket_send s f st = Some (st\<lparr>sockets := ss\<rparr>)
           \<and> (\<forall>t. socket_readyState t (st\<lparr>sockets := ss\<rparr>) = socket_readyState t st)
           \<and> (\<forall>t. sent_of t (st\<lparr>sockets := ss\<rparr>) = (if t = s then sent_of s st @ [f] else sent_of t st))"
proof -
  from assms obtain k where k: "map_of (sockets st) s = Some k" "readyState k = OPEN"
    by (auto simp: socket_readyState_def split: option.splits)
  let ?ss = "AList.update s (k\<lparr>sent := sent k @ [f]\<rparr>) (sockets st)"
  have "socket_send s f st = Some (st\<lparr>sockets := ?ss\<rparr>)"
    using k by (simp add: socket_send_def)
  moreover have "\<forall>t. socket_readyState t (st\<lparr>sockets := ?ss\<rparr>) = socket_readyState t st"
    using k by (simp add: socket_readyState_def update_conv')
  moreover have "\<forall>t. sent_of t (st\<lparr>sockets := ?ss\<rparr>) = (if t = s then sent_of s st @ [f] else sent_of t st)"
    using k by (simp add: sent_of_def update_conv')
  ultimately show ?thesis by blast
qed

lemma broadcast_loop_sockets:
  "\<exists>ss. snd (broadcast_loop xs c n st) = st\<lparr>sockets := ss\<rparr>
        \<and> (\<forall>t. socket_readyState t (st\<lparr>sockets := ss\<rparr>) = socket_readyState t st)
        \<and> (\<forall>t. prefix (sent_of t st) (sent_of t (st\<lparr>sockets := ss\<rparr>)))"
proof (induction xs arbitrary: n st)
  case Nil
  have "st = st\<lparr>sockets := sockets st\<rparr>" by simp
  then show ?case by (metis broadcast_loop.simps(1) snd_conv prefix_order.refl)
next
  case (Cons x xs)
  obtain clientId s where x: "x = (clientId, s)" by (cases x)
  show ?case
  proof (cases "\<not> isController clientId \<and> socket_readyState s st = OPEN")
    case False
    then have "broadcast_loop (x # xs) c n st = broadcast_loop xs c n st"
      by (auto simp: x)
    then show ?thesis using Cons.IH[of n st] by simp
  next
    case True
    let ?f = "ActiveControllerFrame c (Some (now st))"
    from socket_send_open[of s st ?f] True obtain ss where
      ss: "socket_send s ?f st = Some (st\<lparr>sockets := ss\<rparr>)"
      and rs: "\<forall>t. socket_readyState t (st\<lparr>sockets := ss\<rparr>) = socket_readyState t st"
      and se: "\<forall>t. sent_of t (st\<lparr>sockets := ss\<rparr>) = (if t = s then sent_of s st @ [?f] else sent_of t st)"
      by blast
    have step: "broadcast_loop (x # xs) c n st = broadcast_loop xs c (Suc n) (st\<lparr>sockets := ss\<rparr>)"
      using True ss by (simp add: x)
    from Cons.IH[of "Suc n" "st\<lparr>sockets := ss\<rparr>"] obtain ss' where
      a: "snd (broadcast_loop xs c (Suc n) (st\<lparr>sockets := ss\<rparr>)) = st\<lparr>sockets := ss'\<rparr>"
      and b: "\<forall>t. socket_readyState t (st\<lparr>sockets := ss'\<rparr>) = socket_readyState t (st\<lparr>sockets := ss\<rparr>)"
      and d: "\<forall>t. prefix (sent_of t (st\<lparr>sockets := ss\<rparr>)) (sent_of t (st\<lparr>sockets := ss'\<rparr>))"
      by auto
    have "\<forall>t. prefix (sent_of t st) (sent_of t (st\<lparr>sockets := ss\<rparr>))"
      using se by simp
    with d have "\<forall>t. prefix (sent_of t st) (sent_of t (st\<lparr>sockets := ss'\<rparr>))"
      using prefix_order.trans by blast
    with a b rs step show ?thesis by auto
  qed
qed

lemma broadcast_loop_delivers:
  "(clientId, t) \<in> set xs \<Longrightarrow> \<not> isController clientId \<Longrightarrow> socket_readyState t st = OPEN \<Longrightarrow>
     ActiveControllerFrame c (Some (now st)) \<in> set (sent_of t (snd (broadcast_loop xs c n st)))"
proof (induction xs arbitrary: n st)
  case Nil
  then show ?case by simp
next
  case (Cons x xs)
  obtain cid s where x: "x = (cid, s)" by (cases x)
  let ?f = "ActiveControllerFrame c (Some (now st))"
  show ?case
  proof (cases "\<not> isController cid \<and> socket_readyState s st = OPEN")
    case False
    then have step: "broadcast_loop (x # xs) c n st = broadcast_loop xs c n st"
      by (auto simp: x)
    from False Cons.prems x have "(clientId, t) \<in> set xs" by auto
    from Cons.IH[OF this Cons.prems(2,3), of n] step show ?thesis by simp
  next
    case True
    from socket_send_open[of s st ?f] True obtain ss where
      ss: "socket_send s ?f st = Some (st\<lparr>sockets := ss\<rparr>)"
      and rs: "\<forall>t. socket_readyState t (st\<lparr>sockets := ss\<rparr>) = socket_readyState t st"
      and se: "\<forall>t. sent_of t (st\<lparr>sockets := ss\<rparr>) = (if t = s then sent_of s st @ [?f] else sent_of t st)"
      by blast
    let ?st1 = "st\<lparr>sockets := ss\<rparr>"
    have step: "broadcast_loop (x # xs) c n st = broadcast_loop xs c (Suc n) ?st1"
      using True ss by (simp add: x)
    show ?thesis
    proof (cases "(clientId, t) \<in> set xs")
      case True
      have "socket_readyState t ?st1 = OPEN" using rs Cons.prems(3) by simp
      from Cons.IH[OF True Cons.prems(2) this, of "Suc n"] step show ?thesis by simp
    next
      case False
      with Cons.prems(1) x have ts: "t = s" by auto
      from broadcast_loop_sockets[of xs c "Suc n" ?st1] obtain ss' where
        a: "snd (broadcast_loop xs c (Suc n) ?st1) = ?st1\<lparr>sockets := ss'\<rparr>"
        and d: "\<forall>u. prefix (sent_of u ?st1) (sent_of u (?st1\<lparr>sockets := ss'\<rparr>))"
        by blast
      have "?f \<in> set (sent_of t ?st1)" using se ts by simp
      moreover have "set (sent_of t ?st1) \<subseteq> set (sent_of t (?st1\<lparr>sockets := ss'\<rparr>))"
        using d set_mono_prefix by blast
      ultimately show ?thesis using step a by auto
    qed
  qed
qed

subsection \<open>The message handler\<close>

lemma isController_nonempty: "isController c \<Longrightarrow> c \<noteq> []"
  by (auto simp: isController_def CONTROLLER_PREFIX_def)

lemma refresh_lastSeen_kv_only: "\<exists>kv'. refresh_lastSeen cid st = st\<lparr>kv := kv'\<rparr>"
proof -
  have a: "\<exists>kv'. st = st\<lparr>kv := kv'\<rparr>" by (rule exI[of _ "kv st"]) simp
  have b: "\<And>k v e. \<exists>kv'. kv_set k v e st = st\<lparr>kv := kv'\<rparr>"
    unfolding kv_set_def by blast
  show ?thesis
    using a b by (simp add: refresh_lastSeen_def split: option.splits)
qed

lemma kv_get_refresh_lastSeen:
  "k \<noteq> getConnectionKey c \<Longrightarrow> kv_get k (refresh_lastSeen (Some c) st) = kv_get k st"
  by (simp add: refresh_lastSeen_def kv_get_kv_set split: option.splits)

lemma kv_get_refresh_lastSeen_own:
  assumes "c \<noteq> []"
  shows "kv_get (getConnectionKey c) (refresh_lastSeen (Some c) st) =
           (case kv_get (getConnectionKey c) st of
              Some v \<Rightarrow> Some (with_lastSeen (now st) (js_or (field_connectionTimestamp v) (now st)) v)
            | None \<Rightarrow> None)"
  using assms by (simp add: refresh_lastSeen_def bound_def kv_get_kv_set split: option.splits)

lemma refresh_lastSeen_own_record:
  assumes "c \<noteq> []"
  shows "(\<forall>r. kv_get (getConnectionKey c) st = Some (VClient r) \<longrightarrow>
            kv_get (getConnectionKey c) (refresh_lastSeen (Some c) st) =
              Some (VClient (r\<lparr>cl_lastSeen := now st,
                               cl_connectionTimestamp :=
                                 (if cl_connectionTimestamp r = 0 then now st
                                  else cl_connectionTimestamp r)\<rparr>)))
       \<and> (kv_get (getConnectionKey c) st = None \<longrightarrow>
            kv_get (getConnectionKey c) (refresh_lastSeen (Some c) st) = None)"
  by (simp add: kv_get_refresh_lastSeen_own[OF assms] js_or_def)

lemma refresh_lastSeen_fields:
  "now (refresh_lastSeen cid st) = now st"
  "sockets (refresh_lastSeen cid st) = sockets st"
  "activeConnections (refresh_lastSeen cid st) = activeConnections st"
  "timers (refresh_lastSeen cid st) = timers st"
  "nextTimer (refresh_lastSeen cid st) = nextTimer st"
  "ulid_gen (refresh_lastSeen cid st) = ulid_gen st"
  "ulid_calls (refresh_lastSeen cid st) = ulid_calls st"
  using refresh_lastSeen_kv_only[of cid st] by auto

lemma socket_readyState_refresh:
  "socket_readyState t (refresh_lastSeen cid st) = socket_readyState t st"
  by (simp add: socket_readyState_def refresh_lastSeen_fields)

lemma getConnectedClients_sockets:
  "getConnectedClients (st\<lparr>sockets := ss\<rparr>) = getConnectedClients st"
  "getConnectedClients (st\<lparr>timers := ts\<rparr>) = getConnectedClients st"
  "getConnectedClients (st\<lparr>nextTimer := nt\<rparr>) = getConnectedClients st"
  by (simp_all add: getConnectedClients_def kv_list_def hasActiveWebRTCConnection_def)

lemma onmessage_activate:
  assumes "isController c" and "socket_readyState s st = OPEN"
  shows "\<exists>ss. onmessage fuel s (Some c) ControllerActivate st =
                Some ((refresh_lastSeen (Some c) st)
                        \<lparr>sockets := ss,
                          timers := timers st @
                            [(nextTimer st, Timeout CLIENT_GRACE_PERIOD_MS (DelayedCleanup s))],
                          nextTimer := Suc (nextTimer st)\<rparr>)
          \<and> (\<forall>(clientId, t) \<in> set (activeConnections st).
                \<not> isController clientId \<and> socket_readyState t st = OPEN \<longrightarrow>
                  ActiveControllerFrame (Some c) (Some (now st))
                    \<in> set (sent_of t ((refresh_lastSeen (Some c) st)\<lparr>sockets := ss\<rparr>)))
          \<and> sent_of s ((refresh_lastSeen (Some c) st)\<lparr>sockets := ss\<rparr>) \<noteq> []
          \<and> last (sent_of s ((refresh_lastSeen (Some c) st)\<lparr>sockets := ss\<rparr>)) =
              ClientListFrame (getConnectedClients (refresh_lastSeen (Some c) st))"
proof -
  let ?st1 = "refresh_lastSeen (Some c) st"
  have b: "bound (Some c)" using assms(1) by (simp add: bound_def isController_nonempty)
  from broadcast_loop_sockets[of "activeConnections ?st1" "Some c" 0 ?st1] obtain ss1 where
    bl: "snd (broadcastControllerChange (Some c) ?st1) = ?st1\<lparr>sockets := ss1\<rparr>"
    and rs: "\<forall>t. socket_readyState t (?st1\<lparr>sockets := ss1\<rparr>) = socket_readyState t ?st1"
    by (auto simp: broadcastControllerChange_def)
  let ?st2 = "?st1\<lparr>sockets := ss1\<rparr>"
  let ?cl = "ClientListFrame (getConnectedClients ?st1)"
  have "socket_readyState s ?st2 = OPEN"
    using rs assms(2) by (simp add: socket_readyState_refresh)
  from socket_send_open[OF this, of ?cl] obtain ss where
    snd: "socket_send s ?cl ?st2 = Some (?st2\<lparr>sockets := ss\<rparr>)"
    and se: "\<forall>t. sent_of t (?st2\<lparr>sockets := ss\<rparr>) =
                 (if t = s then sent_of s ?st2 @ [?cl] else sent_of t ?st2)"
    by blast
  have eq: "?st2\<lparr>sockets := ss\<rparr> = ?st1\<lparr>sockets := ss\<rparr>" by simp
  have res: "onmessage fuel s (Some c) ControllerActivate st =
                Some (?st1\<lparr>sockets := ss,
                          timers := timers st @
                            [(nextTimer st, Timeout CLIENT_GRACE_PERIOD_MS (DelayedCleanup s))],
                          nextTimer := Suc (nextTimer st)\<rparr>)"
    using b assms(1) bl snd
    by (simp add: onmessage_def Let_def split_beta getConnectedClients_sockets set_timer_def
        refresh_lastSeen_fields)
  have del: "\<forall>(clientId, t) \<in> set (activeConnections st).
                \<not> isController clientId \<and> socket_readyState t st = OPEN \<longrightarrow>
                  ActiveControllerFrame (Some c) (Some (now st)) \<in> set (sent_of t (?st1\<lparr>sockets := ss\<rparr>))"
  proof (intro ballI, clarify)
    fix clientId t
    assume m: "(clientId, t) \<in> set (activeConnections st)" and nc: "\<not> isController clientId"
      and op: "socket_readyState t st = OPEN"
    have "ActiveControllerFrame (Some c) (Some (now ?st1))
            \<in> set (sent_of t (snd (broadcast_loop (activeConnections ?st1) (Some c) 0 ?st1)))"
      by (rule broadcast_loop_delivers) (use m nc op in \<open>simp_all add: refresh_lastSeen_fields socket_readyState_refresh\<close>)
    then have "ActiveControllerFrame (Some c) (Some (now st)) \<in> set (sent_of t ?st2)"
      using bl by (simp add: broadcastControllerChange_def refresh_lastSeen_fields)
    then show "ActiveControllerFrame (Some c) (Some (now st)) \<in> set (sent_of t (?st1\<lparr>sockets := ss\<rparr>))"
      using se eq by auto
  qed
  have "sent_of s (?st1\<lparr>sockets := ss\<rparr>) = sent_of s ?st2 @ [?cl]" using se eq by simp
  then have "sent_of s (?st1\<lparr>sockets := ss\<rparr>) \<noteq> [] \<and> last (sent_of s (?st1\<lparr>sockets := ss\<rparr>)) = ?cl"
    by simp
  with res del show ?thesis by blast
qed

lemma manager_key_not_connection:
  "ACTIVE_CONTROLLER_KEY \<noteq> getConnectionKey c"
  "CONTROLLER_NOTIFICATION_KEY \<noteq> getConnectionKey c"
  by (simp_all add: ACTIVE_CONTROLLER_KEY_def CONTROLLER_NOTIFICATION_KEY_def
      getConnectionKey_def CONNECTION_KEY_PREFIX_def)




lemma onmessage_signal_queued:
  assumes "c \<noteq> []" and "\<not> has_open_socket t st"
  shows "onmessage fuel s (Some c) (SignalMsg kind t payload) st =
           Some (queueMessage t (SignalFrame kind payload c) (refresh_lastSeen (Some c) st))"
  using assms
  by (auto simp: onmessage_def Let_def bound_def has_open_socket_def refresh_lastSeen_fields
      socket_readyState_refresh split: option.splits)

lemma kv_get_queueMessage_key:
  "kv_get (getMessagesKey t @ [ulid_gen st (ulid_calls st)]) (queueMessage t f st) =
     Some (VMessage f)"
  by (simp add: queueMessage_def kv_get_other_fields kv_get_kv_set)


section \<open>Claims about the registry, the router and the reaper\<close>

subsection \<open>The reaper\<close>

text \<open>
  C9. A reaper sweep run at the instant \<open>now\<close> leaves the ClientRecord of every synth
  with \<open>now - connectionTimestamp < CLIENT_GRACE_PERIOD_MS\<close> (15 s) in the store,
  unchanged; so does the delayed sweep that \<^verbatim>\<open>controller-activate\<close> schedules. The
  store has one entry for a key.
\<close>

theorem reaper_keeps_synth_in_grace_period:
  assumes "distinct (map fst (kv st))"
    and "kv_get (getConnectionKey s) st = Some (VClient r)"
    and "now st - cl_connectionTimestamp r < CLIENT_GRACE_PERIOD_MS"
  shows "kv_get (getConnectionKey s) (snd (cleanupBasedOnWebRTCConnections st)) = Some (VClient r)
       \<and> kv_get (getConnectionKey s) (delayedCleanup sock st) = Some (VClient r)"
proof -
  have "getConnectionKey s \<notin> fst ` set (clientsToRemove st)"
  proof
    assume "getConnectionKey s \<in> fst ` set (clientsToRemove st)"
    then obtain v where v: "(getConnectionKey s, v) \<in> set (kv_list CONNECTION_KEY_PREFIX st)"
      and g: "\<not> isInGracePeriod (now st) (js_or (field_connectionTimestamp v) 0)"
      by (auto simp: clientsToRemove_def)
    from kv_list_visible[OF assms(1) v] assms(2) have "v = VClient r" by simp
    with g assms(3) show False by (simp add: isInGracePeriod_def js_or_def)
  qed
  then have sweep:
    "kv_get (getConnectionKey s) (snd (cleanupBasedOnWebRTCConnections st)) = Some (VClient r)"
    using assms(2)
    by (simp add: cleanupBasedOnWebRTCConnections_def kv_get_remove_clients
        connection_key_not_message)
  then have "kv_get (getConnectionKey s) (delayedCleanup sock st) = Some (VClient r)"
    by (auto simp: delayedCleanup_def cleanupInactiveClients_def kv_get_socket_send
        split: prod.splits option.splits)
  with sweep show ?thesis by simp
qed

theorem reaper_keeps_synth_in_grace_period_witness:
  "distinct (map fst (kv st_reaper))
   \<and> kv_get (getConnectionKey ''synth-y'') st_reaper =
       Some (VClient \<lparr>cl_instanceId = ''local'', cl_lastSeen = 995000,
                       cl_connectionTimestamp = 995000, cl_reconnectionCount = 0,
                       cl_lastReconnectTime = None, cl_isController = False\<rparr>)
   \<and> now st_reaper - 995000 < CLIENT_GRACE_PERIOD_MS
   \<and> kv_get (getConnectionKey ''synth-y'') (snd (cleanupBasedOnWebRTCConnections st_reaper)) =
       Some (VClient \<lparr>cl_instanceId = ''local'', cl_lastSeen = 995000,
                       cl_connectionTimestamp = 995000, cl_reconnectionCount = 0,
                       cl_lastReconnectTime = None, cl_isController = False\<rparr>)
   \<and> kv_get (getConnectionKey ''synth-old'') (snd (cleanupBasedOnWebRTCConnections st_reaper)) = None"
proof -
  let ?r = "\<lparr>cl_instanceId = ''local'', cl_lastSeen = 995000,
                       cl_connectionTimestamp = 995000, cl_reconnectionCount = 0,
                       cl_lastReconnectTime = None, cl_isController = False\<rparr>"
  have a: "distinct (map fst (kv st_reaper))" by (simp add: example_defs)
  have b: "kv_get (getConnectionKey ''synth-y'') st_reaper = Some (VClient ?r)"
    by (simp add: kv_get_def example_defs)
  have c: "now st_reaper - cl_connectionTimestamp ?r < CLIENT_GRACE_PERIOD_MS"
    by (simp add: example_defs)
  have d: "clientsToRemove st_reaper = [(getConnectionKey ''synth-old'', ''synth-old'')]"
    by (simp add: clientsToRemove_def kv_list_def isController_def CONTROLLER_PREFIX_def
        isInGracePeriod_def js_or_def example_defs)
  have e: "kv_get (getConnectionKey ''synth-old'') (snd (cleanupBasedOnWebRTCConnections st_reaper)) = None"
    by (simp add: cleanupBasedOnWebRTCConnections_def d kv_get_notifyControllers
        connection_key_not_message kv_get_kv_delete)
  from reaper_keeps_synth_in_grace_period[OF a b c, of 0] a b c e show ?thesis by simp
qed

subsection \<open>Registration over a prior record\<close>

lemma getConnectionKey_inj: "getConnectionKey a = getConnectionKey b \<longleftrightarrow> a = b"
  by (simp add: getConnectionKey_def)

lemma registerConnection_writes:
  "kv_get (getConnectionKey ident)
     (final_state (registerConnection ident s isReconnect timestamp st)) =
     Some (VClient
       \<lparr>cl_instanceId = instanceId st,
         cl_lastSeen = now st,
         cl_connectionTimestamp =
           (case kv_get (getConnectionKey ident) st of
              Some v \<Rightarrow>
                if isReconnect
                then js_or (field_connectionTimestamp v) (js_or timestamp (now st))
                else js_or (field_connectionTimestamp v) (now st)
            | None \<Rightarrow> now st),
         cl_reconnectionCount =
           (case kv_get (getConnectionKey ident) st of
              Some v \<Rightarrow> field_reconnectionCount v + 1 | None \<Rightarrow> 0),
         cl_lastReconnectTime =
           (if isReconnect then Some (now st)
            else js_or_null (case kv_get (getConnectionKey ident) st of
                               Some v \<Rightarrow> field_lastReconnectTime v
                             | None \<Rightarrow> None)),
         cl_isController = isController ident\<rparr>)"
  by (simp add: registerConnection_def final_state_def Let_def kv_get_other_fields kv_get_kv_set
      kv_get_restartPolling kv_get_notifyControllers connection_key_not_message
      controllers_key_not_connection[symmetric] closeExistingConnection_fields
      split: option.splits)

text \<open>
  C6, as the code has it. When a ClientRecord for the id is in the store, with a
  connection timestamp other than 0, the record that \<^verbatim>\<open>registerConnection\<close> writes
  inherits that timestamp and counts one reconnection more. Its \<open>lastReconnectTime\<close> is
  the current time when the client set \<^verbatim>\<open>isReconnect\<close>; when it did not, it is the one of
  the prior record (\<^verbatim>\<open>null\<close> if that had none).
\<close>

theorem registerConnection_existing_record:
  assumes "kv_get (getConnectionKey ident) st = Some (VClient r)"
    and "cl_connectionTimestamp r \<noteq> 0"
  shows "kv_get (getConnectionKey ident)
           (final_state (registerConnection ident s isReconnect timestamp st)) =
           Some (VClient \<lparr>cl_instanceId = instanceId st,
                          cl_lastSeen = now st,
                          cl_connectionTimestamp = cl_connectionTimestamp r,
                          cl_reconnectionCount = cl_reconnectionCount r + 1,
                          cl_lastReconnectTime =
                            (if isReconnect then Some (now st)
                             else js_or_null (cl_lastReconnectTime r)),
                          cl_isController = isController ident\<rparr>)"
  using assms by (simp add: registerConnection_writes js_or_def)

theorem registerConnection_existing_record_witness:
  "kv_get (getConnectionKey ''synth-z'') st_synth_z =
     Some (VClient \<lparr>cl_instanceId = ''local'', cl_lastSeen = 900000,
                     cl_connectionTimestamp = 900000, cl_reconnectionCount = 0,
                     cl_lastReconnectTime = None, cl_isController = False\<rparr>)
   \<and> (900000 :: int) \<noteq> 0
   \<and> kv_get (getConnectionKey ''synth-z'')
        (final_state (registerConnection ''synth-z'' 2 True 1000000 st_synth_z)) =
       Some (VClient \<lparr>cl_instanceId = ''local'', cl_lastSeen = 1000000,
                       cl_connectionTimestamp = 900000, cl_reconnectionCount = 1,
                       cl_lastReconnectTime = Some 1000000, cl_isController = False\<rparr>)"
proof -
  let ?r = "\<lparr>cl_instanceId = ''local'', cl_lastSeen = 900000,
                     cl_connectionTimestamp = 900000, cl_reconnectionCount = 0,
                     cl_lastReconnectTime = None, cl_isController = False\<rparr>"
  have a: "kv_get (getConnectionKey ''synth-z'') st_synth_z = Some (VClient ?r)"
    by (simp add: kv_get_def example_defs)
  have b: "cl_connectionTimestamp ?r \<noteq> 0" by simp
  from registerConnection_existing_record[OF a b, of 2 True 1000000] a
  show ?thesis
    by (simp add: isController_def CONTROLLER_PREFIX_def example_defs)
qed

text \<open>
  The claim as stated says that \<open>lastReconnectTime\<close> is the current time also without
  the flag. \<open>synth-z\<close> registers again without it at the instant 1000000: the new record
  has no \<open>lastReconnectTime\<close>.
\<close>

theorem registerConnection_unflagged_lastReconnectTime_not_now:
  "kv_get (getConnectionKey ''synth-z'') st_synth_z \<noteq> None
   \<and> now st_synth_z = 1000000
   \<and> kv_get (getConnectionKey ''synth-z'')
        (final_state (registerConnection ''synth-z'' 2 False 1000000 st_synth_z)) =
       Some (VClient \<lparr>cl_instanceId = ''local'', cl_lastSeen = 1000000,
                       cl_connectionTimestamp = 900000, cl_reconnectionCount = 1,
                       cl_lastReconnectTime = None, cl_isController = False\<rparr>)"
proof -
  have a: "kv_get (getConnectionKey ''synth-z'') st_synth_z =
     Some (VClient \<lparr>cl_instanceId = ''local'', cl_lastSeen = 900000,
                     cl_connectionTimestamp = 900000, cl_reconnectionCount = 0,
                     cl_lastReconnectTime = None, cl_isController = False\<rparr>)"
    by (simp add: kv_get_def example_defs)
  have b: "now st_synth_z = 1000000" "instanceId st_synth_z = ''local''"
    by (simp_all add: example_defs)
  show ?thesis
    by (simp add: registerConnection_writes a b js_or_def js_or_null_def isController_def
        CONTROLLER_PREFIX_def)
qed

subsection \<open>Queued signaling messages\<close>

text \<open>
  C8, as the code has it. When a bound client sends \<^verbatim>\<open>offer\<close>, \<^verbatim>\<open>answer\<close> or
  \<^verbatim>\<open>ice-candidate\<close> to a target that has no open socket on this instance, the message
  is queued under the target's id, whatever the registry holds for it; the target's
  ClientRecord is neither read nor written.
\<close>

theorem signal_to_offline_target_is_queued:
  assumes "clientId \<noteq> []" and "\<not> has_open_socket targetId st"
  shows "\<exists>st'. onmessage fuel s (Some clientId) (SignalMsg kind targetId payload) st = Some st'
           \<and> kv_get (getMessagesKey targetId @ [ulid_gen st (ulid_calls st)]) st' =
               Some (VMessage (SignalFrame kind payload clientId))
           \<and> (targetId \<noteq> clientId \<longrightarrow>
                 kv_get (getConnectionKey targetId) st' = kv_get (getConnectionKey targetId) st)"
proof -
  let ?st1 = "refresh_lastSeen (Some clientId) st"
  let ?st' = "queueMessage targetId (SignalFrame kind payload clientId) ?st1"
  have "onmessage fuel s (Some clientId) (SignalMsg kind targetId payload) st = Some ?st'"
    by (rule onmessage_signal_queued[OF assms])
  moreover have "kv_get (getMessagesKey targetId @ [ulid_gen st (ulid_calls st)]) ?st' =
               Some (VMessage (SignalFrame kind payload clientId))"
    using kv_get_queueMessage_key[of targetId ?st1] by (simp add: refresh_lastSeen_fields)
  moreover have "targetId \<noteq> clientId \<longrightarrow>
                 kv_get (getConnectionKey targetId) ?st' = kv_get (getConnectionKey targetId) st"
    by (simp add: kv_get_queueMessage_other connection_key_not_message kv_get_refresh_lastSeen
        getConnectionKey_inj)
  ultimately show ?thesis by blast
qed

lemma st_session_no_ghost:
  "\<not> has_open_socket ''synth-ghost'' st_session"
  "kv_get (getConnectionKey ''synth-ghost'') st_session = None"
  by (simp_all add: has_open_socket_def kv_get_def example_defs)

theorem signal_to_offline_target_is_queued_witness:
  "''synth-1'' \<noteq> [] \<and> \<not> has_open_socket ''synth-ghost'' st_session
   \<and> ''synth-ghost'' \<noteq> ''synth-1''
   \<and> (\<exists>st'. onmessage 0 1 (Some ''synth-1'') (SignalMsg Offer ''synth-ghost'' ''sdp'') st_session = Some st'
           \<and> kv_get (getMessagesKey ''synth-ghost'' @ [ulid_gen st_session (ulid_calls st_session)]) st' =
               Some (VMessage (SignalFrame Offer ''sdp'' ''synth-1''))
           \<and> kv_get (getConnectionKey ''synth-ghost'') st' = None)"
proof -
  have a: "''synth-1'' \<noteq> []" and b: "''synth-ghost'' \<noteq> ''synth-1''" by simp_all
  from signal_to_offline_target_is_queued[OF a st_session_no_ghost(1), of 0 1 Offer "''sdp''"]
    a b st_session_no_ghost
  show ?thesis by auto
qed

text \<open>
  The claim as stated says that a message is only queued for a recipient that has a
  ClientRecord at that time. \<open>synth-1\<close> sends an offer to \<open>synth-ghost\<close>, which
  has none, before or after: the offer is queued.
\<close>

theorem message_queued_for_unregistered_recipient:
  "kv_get (getConnectionKey ''synth-ghost'') st_session = None
   \<and> map_option (kv_get (getMessagesKey ''synth-ghost'' @ [ulid_gen st_session (ulid_calls st_session)]))
        (onmessage 0 1 (Some ''synth-1'') (SignalMsg Offer ''synth-ghost'' ''sdp'') st_session) =
       Some (Some (VMessage (SignalFrame Offer ''sdp'' ''synth-1'')))
   \<and> map_option (kv_get (getConnectionKey ''synth-ghost''))
        (onmessage 0 1 (Some ''synth-1'') (SignalMsg Offer ''synth-ghost'' ''sdp'') st_session) =
       Some None"
proof -
  let ?st1 = "refresh_lastSeen (Some ''synth-1'') st_session"
  have a: "onmessage 0 1 (Some ''synth-1'') (SignalMsg Offer ''synth-ghost'' ''sdp'') st_session =
      Some (queueMessage ''synth-ghost'' (SignalFrame Offer ''sdp'' ''synth-1'') ?st1)"
    by (rule onmessage_signal_queued) (simp_all add: st_session_no_ghost)
  have b: "kv_get (getMessagesKey ''synth-ghost'' @ [ulid_gen st_session (ulid_calls st_session)])
             (queueMessage ''synth-ghost'' (SignalFrame Offer ''sdp'' ''synth-1'') ?st1) =
           Some (VMessage (SignalFrame Offer ''sdp'' ''synth-1''))"
    using kv_get_queueMessage_key[of "''synth-ghost''" ?st1] by (simp add: refresh_lastSeen_fields)
  have c: "kv_get (getConnectionKey ''synth-ghost'')
             (queueMessage ''synth-ghost'' (SignalFrame Offer ''sdp'' ''synth-1'') ?st1) = None"
    by (simp add: kv_get_queueMessage_other connection_key_not_message kv_get_refresh_lastSeen
        getConnectionKey_inj st_session_no_ghost(2))
  show ?thesis using a b c st_session_no_ghost(2) by simp
qed

subsection \<open>controller-activate\<close>

lemma sent_of_other_fields:
  "sent_of t (st\<lparr>timers := ts\<rparr>) = sent_of t st"
  "sent_of t (st\<lparr>nextTimer := nt\<rparr>) = sent_of t st"
  by (simp_all add: sent_of_def)

text \<open>
  C2, as the code has it. When a registered controller sends \<^verbatim>\<open>controller-activate\<close>
  on its open socket, the server sends \<^verbatim>\<open>active-controller\<close> with the controller's id
  to every open socket of a non-controller on this instance, then sends the synth list on
  the controller's socket, and schedules the delayed sweep after the grace period. It does
  not call \<^verbatim>\<open>setActive\<close>: the only write to the store is the refresh of the sender's
  own ClientRecord (its \<open>lastSeen\<close> becomes the current time, its connection timestamp
  is kept); every other key is as before, so no ControllerRecord and no ChangeNotification
  is written. Nothing but the store, the sockets and the timers changes.
\<close>

theorem controller_activate_only_broadcasts:
  assumes "isController clientId" and "socket_readyState s st = OPEN"
  shows "\<exists>st'. onmessage fuel s (Some clientId) ControllerActivate st = Some st'
           \<and> (\<forall>k. k \<noteq> getConnectionKey clientId \<longrightarrow> kv_get k st' = kv_get k st)
           \<and> (\<forall>r. kv_get (getConnectionKey clientId) st = Some (VClient r) \<longrightarrow>
                 kv_get (getConnectionKey clientId) st' =
                   Some (VClient (r\<lparr>cl_lastSeen := now st,
                                    cl_connectionTimestamp :=
                                      (if cl_connectionTimestamp r = 0 then now st
                                       else cl_connectionTimestamp r)\<rparr>)))
           \<and> (kv_get (getConnectionKey clientId) st = None \<longrightarrow>
                 kv_get (getConnectionKey clientId) st' = None)
           \<and> (\<forall>(c, t) \<in> set (activeConnections st).
                 \<not> isController c \<and> socket_readyState t st = OPEN \<longrightarrow>
                   ActiveControllerFrame (Some clientId) (Some (now st)) \<in> set (sent_of t st'))
           \<and> sent_of s st' \<noteq> []
           \<and> last (sent_of s st') = ClientListFrame (getConnectedClients st')
           \<and> timers st' =
               timers st @ [(nextTimer st, Timeout CLIENT_GRACE_PERIOD_MS (DelayedCleanup s))]
           \<and> st' = st\<lparr>kv := kv st', sockets := sockets st', timers := timers st',
                        nextTimer := Suc (nextTimer st)\<rparr>"
proof -
  let ?st1 = "refresh_lastSeen (Some clientId) st"
  have ne: "clientId \<noteq> []" using assms(1) by (rule isController_nonempty)
  from onmessage_activate[OF assms, of fuel] obtain ss where
    r: "onmessage fuel s (Some clientId) ControllerActivate st =
          Some (?st1\<lparr>sockets := ss,
                     timers := timers st @
                       [(nextTimer st, Timeout CLIENT_GRACE_PERIOD_MS (DelayedCleanup s))],
                     nextTimer := Suc (nextTimer st)\<rparr>)"
    and d: "\<forall>(c, t) \<in> set (activeConnections st).
                \<not> isController c \<and> socket_readyState t st = OPEN \<longrightarrow>
                  ActiveControllerFrame (Some clientId) (Some (now st))
                    \<in> set (sent_of t (?st1\<lparr>sockets := ss\<rparr>))"
    and n: "sent_of s (?st1\<lparr>sockets := ss\<rparr>) \<noteq> []"
    and l: "last (sent_of s (?st1\<lparr>sockets := ss\<rparr>)) = ClientListFrame (getConnectedClients ?st1)"
    by blast
  let ?st' = "?st1\<lparr>sockets := ss,
                     timers := timers st @
                       [(nextTimer st, Timeout CLIENT_GRACE_PERIOD_MS (DelayedCleanup s))],
                     nextTimer := Suc (nextTimer st)\<rparr>"
  have so: "\<And>t. sent_of t ?st' = sent_of t (?st1\<lparr>sockets := ss\<rparr>)"
    by (simp add: sent_of_def)
  have gc: "getConnectedClients ?st' = getConnectedClients ?st1"
    by (simp add: getConnectedClients_sockets)
  have k: "\<forall>k. k \<noteq> getConnectionKey clientId \<longrightarrow> kv_get k ?st' = kv_get k st"
    by (simp add: kv_get_other_fields kv_get_refresh_lastSeen)
  have own: "(\<forall>r. kv_get (getConnectionKey clientId) st = Some (VClient r) \<longrightarrow>
                 kv_get (getConnectionKey clientId) ?st' =
                   Some (VClient (r\<lparr>cl_lastSeen := now st,
                                    cl_connectionTimestamp :=
                                      (if cl_connectionTimestamp r = 0 then now st
                                       else cl_connectionTimestamp r)\<rparr>)))
           \<and> (kv_get (getConnectionKey clientId) st = None \<longrightarrow>
                 kv_get (getConnectionKey clientId) ?st' = None)"
    using refresh_lastSeen_own_record[OF ne, of st] by (simp add: kv_get_other_fields)
  have t: "timers ?st' =
               timers st @ [(nextTimer st, Timeout CLIENT_GRACE_PERIOD_MS (DelayedCleanup s))]"
    by simp
  from refresh_lastSeen_kv_only[of "Some clientId" st] obtain kv' where
    kv': "?st1 = st\<lparr>kv := kv'\<rparr>" by blast
  have fr: "?st' = st\<lparr>kv := kv ?st', sockets := sockets ?st', timers := timers ?st',
                        nextTimer := Suc (nextTimer st)\<rparr>"
    unfolding kv' by simp
  have l': "last (sent_of s ?st') = ClientListFrame (getConnectedClients ?st')"
    unfolding so gc by (rule l)
  have n': "sent_of s ?st' \<noteq> []" unfolding so by (rule n)
  have d': "\<forall>(c, t) \<in> set (activeConnections st).
                \<not> isController c \<and> socket_readyState t st = OPEN \<longrightarrow>
                  ActiveControllerFrame (Some clientId) (Some (now st)) \<in> set (sent_of t ?st')"
    unfolding so by (rule d)
  from own have own1: "\<forall>r. kv_get (getConnectionKey clientId) st = Some (VClient r) \<longrightarrow>
                 kv_get (getConnectionKey clientId) ?st' =
                   Some (VClient (r\<lparr>cl_lastSeen := now st,
                                    cl_connectionTimestamp :=
                                      (if cl_connectionTimestamp r = 0 then now st
                                       else cl_connectionTimestamp r)\<rparr>))"
    and own2: "kv_get (getConnectionKey clientId) st = None \<longrightarrow>
                 kv_get (getConnectionKey clientId) ?st' = None"
    by blast+
  show ?thesis
    by (rule exI[of _ ?st'], intro conjI) (rule r k own1 own2 d' n' l' t fr)+
qed

lemma st_session_controller:
  "isController ''controller-abc''"
  "socket_readyState 0 st_session = OPEN"
  by (simp_all add: isController_def CONTROLLER_PREFIX_def socket_readyState_def example_defs)

theorem controller_activate_only_broadcasts_witness:
  "isController ''controller-abc'' \<and> socket_readyState 0 st_session = OPEN
   \<and> (''synth-1'', 1) \<in> set (activeConnections st_session)
   \<and> \<not> isController ''synth-1'' \<and> socket_readyState 1 st_session = OPEN
   \<and> ACTIVE_CONTROLLER_KEY \<noteq> getConnectionKey ''controller-abc''
   \<and> kv_get (getConnectionKey ''controller-abc'') st_session =
       Some (VClient \<lparr>cl_instanceId = ''local'', cl_lastSeen = 990000,
                       cl_connectionTimestamp = 990000, cl_reconnectionCount = 0,
                       cl_lastReconnectTime = None, cl_isController = True\<rparr>)
   \<and> (\<exists>st'. onmessage 0 0 (Some ''controller-abc'') ControllerActivate st_session = Some st'
           \<and> kv_get ACTIVE_CONTROLLER_KEY st' = None
           \<and> kv_get (getConnectionKey ''controller-abc'') st' =
               Some (VClient \<lparr>cl_instanceId = ''local'', cl_lastSeen = 1000000,
                               cl_connectionTimestamp = 990000, cl_reconnectionCount = 0,
                               cl_lastReconnectTime = None, cl_isController = True\<rparr>)
           \<and> ActiveControllerFrame (Some ''controller-abc'') (Some 1000000) \<in> set (sent_of 1 st')
           \<and> last (sent_of 0 st') = ClientListFrame (getConnectedClients st')
           \<and> timers st' = [(0, Timeout 15000 (DelayedCleanup 0))])"
proof -
  let ?r = "\<lparr>cl_instanceId = ''local'', cl_lastSeen = 990000,
                       cl_connectionTimestamp = 990000, cl_reconnectionCount = 0,
                       cl_lastReconnectTime = None, cl_isController = True\<rparr>"
  have a: "(''synth-1'', 1) \<in> set (activeConnections st_session)"
    "\<not> isController ''synth-1''" "socket_readyState 1 st_session = OPEN"
    "kv_get ACTIVE_CONTROLLER_KEY st_session = None" "now st_session = 1000000"
    "timers st_session = []" "nextTimer st_session = 0"
    by (simp_all add: isController_def CONTROLLER_PREFIX_def socket_readyState_def kv_get_def
        example_defs)
  have own: "kv_get (getConnectionKey ''controller-abc'') st_session = Some (VClient ?r)"
    by (simp add: kv_get_def example_defs)
  from controller_activate_only_broadcasts[OF st_session_controller, of 0] obtain st' where
    all: "onmessage 0 0 (Some ''controller-abc'') ControllerActivate st_session = Some st'
           \<and> (\<forall>k. k \<noteq> getConnectionKey ''controller-abc'' \<longrightarrow> kv_get k st' = kv_get k st_session)
           \<and> (\<forall>r. kv_get (getConnectionKey ''controller-abc'') st_session = Some (VClient r) \<longrightarrow>
                 kv_get (getConnectionKey ''controller-abc'') st' =
                   Some (VClient (r\<lparr>cl_lastSeen := now st_session,
                                    cl_connectionTimestamp :=
                                      (if cl_connectionTimestamp r = 0 then now st_session
                                       else cl_connectionTimestamp r)\<rparr>)))
           \<and> (kv_get (getConnectionKey ''controller-abc'') st_session = None \<longrightarrow>
                 kv_get (getConnectionKey ''controller-abc'') st' = None)
           \<and> (\<forall>(c, t) \<in> set (activeConnections st_session).
                 \<not> isController c \<and> socket_readyState t st_session = OPEN \<longrightarrow>
                   ActiveControllerFrame (Some ''controller-abc'') (Some (now st_session))
                     \<in> set (sent_of t st'))
           \<and> sent_of 0 st' \<noteq> []
           \<and> last (sent_of 0 st') = ClientListFrame (getConnectedClients st')
           \<and> timers st' =
               timers st_session @
                 [(nextTimer st_session, Timeout CLIENT_GRACE_PERIOD_MS (DelayedCleanup 0))]
           \<and> st' = st_session\<lparr>kv := kv st', sockets := sockets st', timers := timers st',
                        nextTimer := Suc (nextTimer st_session)\<rparr>" ..
  from all have r: "onmessage 0 0 (Some ''controller-abc'') ControllerActivate st_session = Some st'"
    by (rule conjunct1)
  from all have k: "\<forall>k. k \<noteq> getConnectionKey ''controller-abc'' \<longrightarrow> kv_get k st' = kv_get k st_session"
    by (elim conjE)
  from all have o: "\<forall>r. kv_get (getConnectionKey ''controller-abc'') st_session = Some (VClient r) \<longrightarrow>
                 kv_get (getConnectionKey ''controller-abc'') st' =
                   Some (VClient (r\<lparr>cl_lastSeen := now st_session,
                                    cl_connectionTimestamp :=
                                      (if cl_connectionTimestamp r = 0 then now st_session
                                       else cl_connectionTimestamp r)\<rparr>))"
    by (elim conjE)
  from all have d: "\<forall>(c, t) \<in> set (activeConnections st_session).
                 \<not> isController c \<and> socket_readyState t st_session = OPEN \<longrightarrow>
                   ActiveControllerFrame (Some ''controller-abc'') (Some (now st_session))
                     \<in> set (sent_of t st')"
    by (elim conjE)
  from all have l: "last (sent_of 0 st') = ClientListFrame (getConnectedClients st')"
    by (elim conjE)
  from all have t: "timers st' =
               timers st_session @
                 [(nextTimer st_session, Timeout CLIENT_GRACE_PERIOD_MS (DelayedCleanup 0))]"
    by (elim conjE)
  from k a(4) have k': "kv_get ACTIVE_CONTROLLER_KEY st' = None"
    by (simp add: manager_key_not_connection)
  from o[rule_format, OF own] have o': "kv_get (getConnectionKey ''controller-abc'') st' =
               Some (VClient \<lparr>cl_instanceId = ''local'', cl_lastSeen = 1000000,
                               cl_connectionTimestamp = 990000, cl_reconnectionCount = 0,
                               cl_lastReconnectTime = None, cl_isController = True\<rparr>)"
    by (simp add: a(5))
  from bspec[OF d a(1)] a(2,3)
  have d': "ActiveControllerFrame (Some ''controller-abc'') (Some 1000000) \<in> set (sent_of 1 st')"
    by (simp add: a(5))
  from t have t': "timers st' = [(0, Timeout 15000 (DelayedCleanup 0))]"
    by (simp add: a CLIENT_GRACE_PERIOD_MS_def)
  have ex: "\<exists>st'. onmessage 0 0 (Some ''controller-abc'') ControllerActivate st_session = Some st'
           \<and> kv_get ACTIVE_CONTROLLER_KEY st' = None
           \<and> kv_get (getConnectionKey ''controller-abc'') st' =
               Some (VClient \<lparr>cl_instanceId = ''local'', cl_lastSeen = 1000000,
                               cl_connectionTimestamp = 990000, cl_reconnectionCount = 0,
                               cl_lastReconnectTime = None, cl_isController = True\<rparr>)
           \<and> ActiveControllerFrame (Some ''controller-abc'') (Some 1000000) \<in> set (sent_of 1 st')
           \<and> last (sent_of 0 st') = ClientListFrame (getConnectedClients st')
           \<and> timers st' = [(0, Timeout 15000 (DelayedCleanup 0))]"
    by (rule exI[of _ st'], intro conjI) (rule r k' o' d' l t')+
  show ?thesis
    by (intro conjI) (rule st_session_controller a(1,2,3) manager_key_not_connection(1) own ex)+
qed

text \<open>
  The claim as stated says that the ControllerRecord is written to the controller's id.
  \<open>controller-abc\<close> is registered and sends \<^verbatim>\<open>controller-activate\<close> while nobody
  leads: afterwards there is no ControllerRecord in the store, under any key.
\<close>

theorem controller_activate_writes_no_ControllerRecord:
  "isController ''controller-abc''
   \<and> kv_get (getConnectionKey ''controller-abc'') st_session \<noteq> None
   \<and> map_option (kv_get ACTIVE_CONTROLLER_KEY)
        (onmessage 0 0 (Some ''controller-abc'') ControllerActivate st_session) = Some None
   \<and> map_option (kv_get status_ACTIVE_CONTROLLER_KEY)
        (onmessage 0 0 (Some ''controller-abc'') ControllerActivate st_session) = Some None
   \<and> map_option live_controller_records
        (onmessage 0 0 (Some ''controller-abc'') ControllerActivate st_session) = Some []"
proof -
  let ?st1 = "refresh_lastSeen (Some ''controller-abc'') st_session"
  from onmessage_activate[OF st_session_controller, of 0] obtain ss ts nt where
    r: "onmessage 0 0 (Some ''controller-abc'') ControllerActivate st_session =
          Some (?st1\<lparr>sockets := ss, timers := ts, nextTimer := nt\<rparr>)"
    by blast
  have kv1: "kv ?st1 =
      [(getConnectionKey ''controller-abc'',
                  VClient \<lparr>cl_instanceId = ''local'', cl_lastSeen = 1000000,
                            cl_connectionTimestamp = 990000, cl_reconnectionCount = 0,
                            cl_lastReconnectTime = None, cl_isController = True\<rparr>,
                  Some 1600000),
                 (getConnectionKey ''synth-1'',
                  VClient \<lparr>cl_instanceId = ''local'', cl_lastSeen = 980000,
                            cl_connectionTimestamp = 980000, cl_reconnectionCount = 0,
                            cl_lastReconnectTime = None, cl_isController = False\<rparr>,
                  Some 1580000)]"
    by (simp add: refresh_lastSeen_def bound_def kv_get_def kv_set_def js_or_def example_defs)
  have a: "kv_get (getConnectionKey ''controller-abc'') st_session \<noteq> None"
    by (simp add: kv_get_def example_defs)
  have b: "kv_get ACTIVE_CONTROLLER_KEY (?st1\<lparr>sockets := ss, timers := ts, nextTimer := nt\<rparr>) = None"
    by (simp add: kv_get_def kv1) (simp add: example_defs)
  have c: "kv_get status_ACTIVE_CONTROLLER_KEY (?st1\<lparr>sockets := ss, timers := ts, nextTimer := nt\<rparr>) = None"
    by (simp add: kv_get_def kv1) (simp add: example_defs)
  have d: "live_controller_records (?st1\<lparr>sockets := ss, timers := ts, nextTimer := nt\<rparr>) = []"
    by (simp add: live_controller_records_def kv1)
  show ?thesis using r a b c d st_session_controller(1) by simp
qed


subsection \<open>controller-deactivate\<close>






end
